theory Spec2Isabelle
  imports Complex_Main "HOL-Library.AList"
begin

section \<open>Inversionson: iteration records, control groups and Salvus jobs\<close>

text \<open>
  A shallow embedding of \<^verbatim>\<open>inversionson/components/project.py\<close> (the iteration and
  control-group toml files of \<^verbatim>\<open>ProjectComponent\<close>) and of
  \<^verbatim>\<open>inversionson/components/flow_comp.py\<close> (\<^verbatim>\<open>SalvusFlowComponent\<close>: job names,
  submission, status, retrieval, deletion).

  Python dictionaries with a fixed set of keys are records; a key that is present only in
  some modes is an \<open>option\<close> field. Dictionaries indexed by event, iteration or
  simulation type are maps, and the \<^verbatim>\<open>events\<close> table of an iteration file is an association
  list, since \<^verbatim>\<open>delete_stored_wavefields\<close> walks it in insertion order. Every exception is a
  value of \<open>error\<close>. A method takes the state \<open>world\<close> and returns the outcome together
  with the state it leaves behind: an exception does not undo the assignments and the
  backend calls made before it.
\<close>

subsection \<open>Errors\<close>

datatype error =
    InversionsonError
  | KeyError
  | ValueError
  | FileNotFoundError
  | UnboundLocalError
  | SalvusFlowError string \<comment> \<open>any exception raised inside \<^verbatim>\<open>salvus.flow.api\<close>\<close>
  | ExecOutsideModel \<comment> \<open>\<^verbatim>\<open>change_attribute\<close> on text that is not plain, see there\<close>

subsection \<open>Strings and paths\<close>

fun startswith :: "string \<Rightarrow> string \<Rightarrow> bool" where
  "startswith s [] = True"
| "startswith [] (c # cs) = False"
| "startswith (x # xs) (c # cs) = (x = c \<and> startswith xs cs)"

text \<open>Python's \<^verbatim>\<open>sub in s\<close> on strings.\<close>

fun str_in :: "string \<Rightarrow> string \<Rightarrow> bool" where
  "str_in sub [] = (sub = [])"
| "str_in sub (c # cs) = (startswith (c # cs) sub \<or> str_in sub cs)"

text \<open>
  \<^verbatim>\<open>os.path.dirname\<close> (posixpath): the part up to and including the last slash, with the
  trailing slashes stripped unless it consists of slashes only.
\<close>

definition dirname :: "string \<Rightarrow> string" where
  "dirname p =
     (let head = rev (dropWhile (\<lambda>c. c \<noteq> CHR ''/'') (rev p))
      in if head \<noteq> [] \<and> \<not> list_all (\<lambda>c. c = CHR ''/'') head
         then rev (dropWhile (\<lambda>c. c = CHR ''/'') (rev head))
         else head)"

text \<open>
  The file of an iteration inside \<^verbatim>\<open>paths["iteration_tomls"]\<close>, and the backup that
  \<^verbatim>\<open>create_iteration_toml\<close> writes beside it. Files of that directory are named by their
  file name.
\<close>

definition iteration_toml :: "string \<Rightarrow> string" where
  "iteration_toml iteration = iteration @ ''.toml''"

definition backup :: "string \<Rightarrow> string" where
  "backup iteration = ''backup_'' @ iteration @ ''.toml''"

subsection \<open>The data model\<close>

text \<open>
  A job dictionary: \<^verbatim>\<open>{"name", "submitted", "retrieved", "reposts"}\<close>, with
  \<^verbatim>\<open>"interpolated"\<close> and \<^verbatim>\<open>"windows_selected"\<close> present in some modes only.
\<close>

record job_dict =
  name :: string
  submitted :: bool
  retrieved :: bool
  reposts :: int
  interpolated :: "bool option"
  windows_selected :: "bool option"

text \<open>An entry of \<^verbatim>\<open>it_dict["events"]\<close>; \<^verbatim>\<open>job_info\<close> is keyed by simulation type.\<close>

record event_dict =
  job_info :: "string \<rightharpoonup> job_dict"
  misfit :: "real option"
  usage_updated :: "bool option"

text \<open>
  The dictionary written to an iteration's toml file. The fields are the keys
  \<^verbatim>\<open>name\<close>, \<^verbatim>\<open>events\<close>, \<^verbatim>\<open>last_control_group\<close>, \<^verbatim>\<open>new_control_group\<close> and
  \<^verbatim>\<open>smoothing\<close>, prefixed to keep them apart from the attributes of the project.
\<close>

record it_dict =
  it_name :: string
  it_events :: "(string \<times> event_dict) list"
  it_last_control_group :: "string list option"
  it_new_control_group :: "string list option"
  it_smoothing :: "job_dict option"

text \<open>
  \<^verbatim>\<open>control_groups.toml\<close>: iteration name to a dictionary with the keys \<^verbatim>\<open>old\<close> and
  \<^verbatim>\<open>new\<close>.
\<close>

type_synonym cg_dict = "string \<rightharpoonup> (string \<rightharpoonup> string list)"

text \<open>
  \<^verbatim>\<open>self.smoothing_job\<close> is one job dictionary in mono-batch mode and a dictionary of job
  dictionaries by event in mini-batch mode (\<^verbatim>\<open>get_iteration_attributes\<close>).
\<close>

datatype smoothing_jobs = PerEvent "string \<rightharpoonup> job_dict" | Single job_dict

subsection \<open>Salvus Flow\<close>

text \<open>
  \<^verbatim>\<open>salvus.flow.api\<close> is outside the repository. A job object is the name and site it was
  fetched with; the simulation object is opaque. The state keeps the trace of the calls
  issued, and the backend answers each call from the trace so far.
\<close>

record job =
  job_name :: string
  job_site :: string
  job_array :: bool

datatype simulation = Simulation string

datatype sapi_call =
    RunAsync string simulation int int  \<comment> \<open>site, input file, ranks, wall time\<close>
  | GetJob string string                \<comment> \<open>job name, site\<close>
  | GetJobArray string string           \<comment> \<open>job array name, site\<close>
  | UpdateStatus job bool               \<comment> \<open>\<^verbatim>\<open>force_update\<close>\<close>
  | CopyOutput job string bool          \<comment> \<open>destination, \<^verbatim>\<open>allow_existing_destination_folder\<close>\<close>
  | Delete job

subsection \<open>The state\<close>

record world =
  \<comment> \<open>attributes of \<^verbatim>\<open>ProjectComponent\<close>\<close>
  inversion_id :: string
  inversion_mode :: string
  meshes :: string
  site_name :: string
  smoothing_site_name :: string
  wall_time :: int
  current_iteration :: string
  new_control_group :: "string list"
  forward_job :: "string \<rightharpoonup> job_dict"
  adjoint_job :: "string \<rightharpoonup> job_dict"
  smoothing_job :: smoothing_jobs
  misfits :: "string \<rightharpoonup> real"
  updated :: "string \<rightharpoonup> bool"
  \<comment> \<open>the files: \<^verbatim>\<open>paths["iteration_tomls"]\<close> by file name, and \<^verbatim>\<open>paths["control_group_toml"]\<close>\<close>
  iteration_tomls :: "string \<rightharpoonup> it_dict"
  control_group_toml :: "cg_dict option"
  \<comment> \<open>effects: \<^verbatim>\<open>warnings.warn\<close> and the calls into \<^verbatim>\<open>salvus.flow.api\<close>, oldest first\<close>
  warnings :: "string list"
  sapi_calls :: "sapi_call list"

text \<open>
  The collaborators: \<^verbatim>\<open>comm.lasif\<close>, \<^verbatim>\<open>comm.salvus_opt\<close>, Python's \<^verbatim>\<open>random\<close> and
  \<^verbatim>\<open>salvus.flow.api\<close>. The lasif and salvus_opt calls are taken to return.
\<close>

record collaborators =
  list_events :: "string \<Rightarrow> string list"
  find_seismograms :: "string \<Rightarrow> string \<Rightarrow> string" \<comment> \<open>event, iteration\<close>
  find_gradient :: "string \<Rightarrow> string \<Rightarrow> string"    \<comment> \<open>iteration, event\<close>
  get_previous_iteration_name :: string
  unique_id :: string \<comment> \<open>the eight characters \<^verbatim>\<open>random.choice\<close> draws\<close>
  run_async_answer :: "sapi_call list \<Rightarrow> string \<Rightarrow> simulation \<Rightarrow> int \<Rightarrow> int \<Rightarrow> error + string"
    \<comment> \<open>\<^verbatim>\<open>sapi.run_async(...).job_name\<close>, or the exception raised\<close>
  get_job_answer :: "sapi_call list \<Rightarrow> string \<Rightarrow> string \<Rightarrow> error option"
  get_job_array_answer :: "sapi_call list \<Rightarrow> string \<Rightarrow> string \<Rightarrow> error option"
  update_status_answer :: "sapi_call list \<Rightarrow> job \<Rightarrow> bool \<Rightarrow> error + string"
  copy_output_answer :: "sapi_call list \<Rightarrow> job \<Rightarrow> string \<Rightarrow> bool \<Rightarrow> error option"
  delete_answer :: "sapi_call list \<Rightarrow> job \<Rightarrow> error option"

type_synonym 'a outcome = "(error + 'a) \<times> world"

subsection \<open>\<^verbatim>\<open>create_iteration_toml\<close>\<close>

definition empty_job :: job_dict where
  "empty_job = \<lparr>name = '''', submitted = False, retrieved = False, reposts = 0,
                 interpolated = None, windows_selected = None\<rparr>"

definition f_job_dict :: "world \<Rightarrow> bool \<Rightarrow> job_dict" where
  "f_job_dict w validation =
     empty_job\<lparr>windows_selected := (if validation then Some False else None),
               interpolated := (if meshes w = ''multi-mesh'' then Some False else None)\<rparr>"

definition a_job_dict :: "world \<Rightarrow> job_dict" where
  "a_job_dict w =
     empty_job\<lparr>interpolated := (if meshes w = ''multi-mesh'' then Some False else None)\<rparr>"

definition s_job_dict :: job_dict where
  "s_job_dict = empty_job"

text \<open>The body of the loop over the events: the entry stored under \<^verbatim>\<open>it_dict["events"][event]\<close>.\<close>

definition create_event :: "world \<Rightarrow> bool \<Rightarrow> event_dict" where
  "create_event w validation =
     (let jobs =
            (if validation then [''forward'' \<mapsto> f_job_dict w validation]
             else if inversion_mode w = ''mini-batch''
             then [''forward'' \<mapsto> f_job_dict w validation, ''adjoint'' \<mapsto> a_job_dict w,
                   ''smoothing'' \<mapsto> s_job_dict]
             else [''forward'' \<mapsto> f_job_dict w validation, ''adjoint'' \<mapsto> a_job_dict w])
      in \<lparr>job_info = jobs,
          misfit = (if validation then None else Some 0),
          usage_updated = (if validation then None else Some False)\<rparr>)"

fun create_events :: "event_dict \<Rightarrow> string list \<Rightarrow> (string \<times> event_dict) list
    \<Rightarrow> (string \<times> event_dict) list" where
  "create_events entry [] evs = evs"
| "create_events entry (event # rest) evs = create_events entry rest (AList.update event entry evs)"

text \<open>
  The control group of the previous iteration, read from \<^verbatim>\<open>control_groups.toml\<close>:
  \<^verbatim>\<open>toml.load(...)[prev_iter]["new"]\<close>.
\<close>

definition load_last_control_group :: "collaborators \<Rightarrow> world \<Rightarrow> error + string list" where
  "load_last_control_group c w =
     (case control_group_toml w of
        None \<Rightarrow> Inl FileNotFoundError
      | Some ctrl_grps \<Rightarrow>
          (case ctrl_grps (get_previous_iteration_name c) of
             None \<Rightarrow> Inl KeyError
           | Some grp \<Rightarrow> (case grp ''new'' of None \<Rightarrow> Inl KeyError | Some g \<Rightarrow> Inr g)))"

definition create_it_dict :: "collaborators \<Rightarrow> world \<Rightarrow> string \<Rightarrow> bool \<Rightarrow> string list \<Rightarrow> it_dict" where
  "create_it_dict c w iteration validation last_control_group =
     \<lparr>it_name = iteration,
      it_events = create_events (create_event w validation) (list_events c iteration) [],
      it_last_control_group = (if validation then None else Some last_control_group),
      it_new_control_group = (if validation then None else Some []),
      it_smoothing = (if inversion_mode w = ''mono-batch'' \<and> \<not> validation
                      then Some s_job_dict else None)\<rparr>"

definition backup_warning :: "string \<Rightarrow> string" where
  "backup_warning iteration =
     ''Iteration toml for iteration: '' @ iteration @ '' already exists. backed it up''"

definition create_iteration_toml :: "collaborators \<Rightarrow> string \<Rightarrow> world \<Rightarrow> unit outcome" where
  "create_iteration_toml c iteration w =
     (let validation = str_in ''validation'' iteration;
          w1 = (case iteration_tomls w (iteration_toml iteration) of
                  None \<Rightarrow> w
                | Some existing \<Rightarrow>
                    w\<lparr>warnings := warnings w @ [backup_warning iteration],
                      iteration_tomls := (iteration_tomls w)(backup iteration \<mapsto> existing)\<rparr>)
      in case (if iteration \<noteq> ''it0000_model'' \<and> \<not> validation
               then load_last_control_group c w1 else Inr [])
         of Inl e \<Rightarrow> (Inl e, w1)
          | Inr last_control_group \<Rightarrow>
              (Inr (),
               w1\<lparr>iteration_tomls := (iteration_tomls w1)
                     (iteration_toml iteration \<mapsto>
                        create_it_dict c w iteration validation last_control_group)\<rparr>))"

subsection \<open>\<^verbatim>\<open>update_control_group_toml\<close>\<close>

text \<open>
  \<^verbatim>\<open>new not in cg_dict[iteration].keys()\<close> asks whether the flag \<^verbatim>\<open>new\<close>, a bool, is one
  of the keys, which are strings: it never is.
\<close>

definition bool_in_keys :: "bool \<Rightarrow> (string \<rightharpoonup> 'v) \<Rightarrow> bool" where
  "bool_in_keys b d = False"

definition update_control_group_toml :: "collaborators \<Rightarrow> bool \<Rightarrow> bool \<Rightarrow> world \<Rightarrow> unit outcome" where
  "update_control_group_toml c new first w =
     (let iteration = current_iteration w
      in if first
         then (Inr (),
               w\<lparr>control_group_toml := Some [iteration \<mapsto> [''old'' \<mapsto> [], ''new'' \<mapsto> []]]\<rparr>)
         else case control_group_toml w of
                None \<Rightarrow> (Inl FileNotFoundError, w)
              | Some cg_dict \<Rightarrow>
                  if \<not> new
                  then (let prev_iter = get_previous_iteration_name c;
                            cg1 = cg_dict(iteration \<mapsto> Map.empty)
                        in case cg1 prev_iter of
                             None \<Rightarrow> (Inl KeyError, w)
                           | Some prev \<Rightarrow>
                               (case prev ''new'' of
                                  None \<Rightarrow> (Inl KeyError, w)
                                | Some g \<Rightarrow>
                                    (let grp = [''old'' \<mapsto> g];
                                         grp' = (if \<not> bool_in_keys new grp
                                                 then grp(''new'' \<mapsto> []) else grp)
                                     in (Inr (),
                                         w\<lparr>control_group_toml := Some (cg1(iteration \<mapsto> grp'))\<rparr>))))
                  else (let grp = (case cg_dict iteration of None \<Rightarrow> Map.empty | Some g \<Rightarrow> g)
                        in (Inr (),
                            w\<lparr>control_group_toml :=
                                Some (cg_dict(iteration \<mapsto> grp(''new'' \<mapsto> new_control_group w)))\<rparr>)))"

subsection \<open>\<^verbatim>\<open>update_iteration_toml\<close>\<close>

text \<open>
  The entry of one event, from the attributes in memory. Every lookup by event raises
  \<^verbatim>\<open>KeyError\<close> for an event the attribute does not hold. In mini-batch mode
  \<^verbatim>\<open>self.smoothing_job[event]\<close> expects the dictionary by event.
\<close>

definition update_event :: "world \<Rightarrow> bool \<Rightarrow> string \<Rightarrow> error + event_dict" where
  "update_event w validation event =
     (case forward_job w event of
        None \<Rightarrow> Inl KeyError
      | Some f \<Rightarrow>
          if validation
          then Inr \<lparr>job_info = [''forward'' \<mapsto> f], misfit = None, usage_updated = None\<rparr>
          else (case adjoint_job w event of
                  None \<Rightarrow> Inl KeyError
                | Some a \<Rightarrow>
                    (case (if inversion_mode w = ''mini-batch''
                           then (case smoothing_job w of
                                   PerEvent sm \<Rightarrow>
                                     (case sm event of
                                        None \<Rightarrow> Inl KeyError
                                      | Some s \<Rightarrow> Inr [''forward'' \<mapsto> f, ''adjoint'' \<mapsto> a,
                                                        ''smoothing'' \<mapsto> s])
                                 | Single s \<Rightarrow> Inl KeyError)
                           else Inr [''forward'' \<mapsto> f, ''adjoint'' \<mapsto> a])
                     of Inl e \<Rightarrow> Inl e
                      | Inr jobs \<Rightarrow>
                          (case misfits w event of
                             None \<Rightarrow> Inl KeyError
                           | Some m \<Rightarrow>
                               (case updated w event of
                                  None \<Rightarrow> Inl KeyError
                                | Some u \<Rightarrow>
                                    Inr \<lparr>job_info = jobs, misfit = Some m,
                                         usage_updated = Some u\<rparr>)))))"

fun update_events :: "world \<Rightarrow> bool \<Rightarrow> string list \<Rightarrow> (string \<times> event_dict) list
    \<Rightarrow> error + (string \<times> event_dict) list" where
  "update_events w validation [] evs = Inr evs"
| "update_events w validation (event # rest) evs =
     (case update_event w validation event of
        Inl e \<Rightarrow> Inl e
      | Inr entry \<Rightarrow> update_events w validation rest (AList.update event entry evs))"

text \<open>
  The control groups written into the iteration file: the entry of the iteration in
  \<^verbatim>\<open>control_groups.toml\<close> when that file exists and the iteration is no validation
  iteration, and two empty lists otherwise.
\<close>

definition control_group_dict :: "world \<Rightarrow> string \<Rightarrow> bool \<Rightarrow> error + (string \<rightharpoonup> string list)" where
  "control_group_dict w iteration validation =
     (case control_group_toml w of
        Some cg \<Rightarrow>
          if \<not> validation
          then (case cg iteration of None \<Rightarrow> Inl KeyError | Some grp \<Rightarrow> Inr grp)
          else Inr [''old'' \<mapsto> [], ''new'' \<mapsto> []]
      | None \<Rightarrow> Inr [''old'' \<mapsto> [], ''new'' \<mapsto> []])"

text \<open>
  The iteration the call is about: \<^verbatim>\<open>"current"\<close> stands for the current iteration, a name
  that contains \<^verbatim>\<open>validation\<close> makes the call a validation call, and a validation call on
  another name is redirected to \<^verbatim>\<open>validation_<name>\<close>.
\<close>

definition resolve_iteration :: "world \<Rightarrow> string \<Rightarrow> bool \<Rightarrow> string \<times> bool" where
  "resolve_iteration w iteration0 validation0 =
     (let iteration1 = (if iteration0 = ''current'' then current_iteration w else iteration0);
          validation = (validation0 \<or> str_in ''validation'' iteration1);
          iteration = (if validation \<and> \<not> str_in ''validation'' iteration1
                       then ''validation_'' @ iteration1 else iteration1)
      in (iteration, validation))"

text \<open>\<^verbatim>\<open>control_group_dict["old"]\<close> and \<^verbatim>\<open>control_group_dict["new"]\<close>, read only when the
  iteration is no validation iteration.\<close>

definition control_groups_of ::
    "(string \<rightharpoonup> string list) \<Rightarrow> bool \<Rightarrow> error + (string list option \<times> string list option)" where
  "control_groups_of cgd validation =
     (if validation then Inr (None, None)
      else (case cgd ''old'' of
              None \<Rightarrow> Inl KeyError
            | Some old \<Rightarrow>
                (case cgd ''new'' of
                   None \<Rightarrow> Inl KeyError
                 | Some new \<Rightarrow> Inr (Some old, Some new))))"

text \<open>
  The dictionary \<^verbatim>\<open>it_dict\<close> as it stands after the loop over the events: the keys
  \<^verbatim>\<open>name\<close>, \<^verbatim>\<open>events\<close> and, unless validating, the two control groups. No statement
  stores the key \<^verbatim>\<open>smoothing\<close>.
\<close>

definition build_it_dict :: "collaborators \<Rightarrow> world \<Rightarrow> string \<Rightarrow> bool \<Rightarrow> error + it_dict" where
  "build_it_dict c w iteration validation =
     (case control_group_dict w iteration validation of
        Inl e \<Rightarrow> Inl e
      | Inr cgd \<Rightarrow>
          (case control_groups_of cgd validation of
             Inl e \<Rightarrow> Inl e
           | Inr (last_cg, new_cg) \<Rightarrow>
               (case update_events w validation (list_events c iteration) [] of
                  Inl e \<Rightarrow> Inl e
                | Inr evs \<Rightarrow>
                    Inr \<lparr>it_name = iteration, it_events = evs,
                         it_last_control_group = last_cg,
                         it_new_control_group = new_cg,
                         it_smoothing = None\<rparr>)))"

text \<open>
  The last statement before the file is written is, in mono-batch mode,
  \<^verbatim>\<open>it_dict["smoothing"] == self.smoothing_job\<close>: a comparison, whose left side looks the key
  \<^verbatim>\<open>smoothing\<close> up in the dictionary just built and whose value is dropped.
\<close>

definition update_iteration_toml :: "collaborators \<Rightarrow> string \<Rightarrow> bool \<Rightarrow> world \<Rightarrow> unit outcome" where
  "update_iteration_toml c iteration0 validation0 w =
     (case resolve_iteration w iteration0 validation0 of
        (iteration, validation) \<Rightarrow>
          if iteration_tomls w (iteration_toml iteration) = None
          then (Inl InversionsonError, w)
          else (case build_it_dict c w iteration validation of
                  Inl e \<Rightarrow> (Inl e, w)
                | Inr it \<Rightarrow>
                    (let written = w\<lparr>iteration_tomls :=
                           (iteration_tomls w)(iteration_toml iteration \<mapsto> it)\<rparr>
                     in if inversion_mode w = ''mono-batch'' \<and> \<not> validation
                        then (case it_smoothing it of
                                None \<Rightarrow> (Inl KeyError, w)
                              | Some s \<Rightarrow> (Inr (), written))
                        else (Inr (), written))))"

subsection \<open>\<^verbatim>\<open>get_old_iteration_info\<close>\<close>

definition get_old_iteration_info :: "string \<Rightarrow> world \<Rightarrow> error + it_dict" where
  "get_old_iteration_info iteration w =
     (case iteration_tomls w (iteration_toml iteration) of
        None \<Rightarrow> Inl InversionsonError
      | Some it \<Rightarrow> Inr it)"

text \<open>\<^verbatim>\<open>it_dict["events"][event]["job_info"][sim_type]["name"]\<close>\<close>

definition stored_job_name :: "it_dict \<Rightarrow> string \<Rightarrow> string \<Rightarrow> error + string" where
  "stored_job_name it event sim_type =
     (case map_of (it_events it) event of
        None \<Rightarrow> Inl KeyError
      | Some ev \<Rightarrow>
          (case job_info ev sim_type of
             None \<Rightarrow> Inl KeyError
           | Some j \<Rightarrow> Inr (name j)))"

subsection \<open>\<^verbatim>\<open>change_attribute\<close>\<close>

text \<open>
  \<^verbatim>\<open>change_attribute\<close> formats the assignment as Python text, a string value between double
  quotes, and executes the text. When the event name and the string value consist of
  printable ASCII characters (codes 32 to 126) other than the double quote and the
  backslash, the text executed is the assignment \<^verbatim>\<open>self.<jobs>[event][key] = value\<close>,
  which raises \<^verbatim>\<open>KeyError\<close> for an unknown event. On other text the execution may raise
  (a quote, a line break, a NUL character), assign another value (a backslash escape) or
  run other statements; that text is outside the model and reported as
  \<open>ExecOutsideModel\<close>. The two instances are the ones \<^verbatim>\<open>submit_job\<close> uses: the keys
  \<^verbatim>\<open>name\<close> and \<^verbatim>\<open>submitted\<close>.
\<close>

definition plain :: "string \<Rightarrow> bool" where
  "plain s = list_all (\<lambda>ch. 32 \<le> (of_char ch :: nat) \<and> (of_char ch :: nat) \<le> 126 \<and>
                           ch \<noteq> CHR 0x22 \<and> ch \<noteq> CHR 0x5C) s"

definition change_attribute_name ::
    "(string \<rightharpoonup> job_dict) \<Rightarrow> string \<Rightarrow> string \<Rightarrow> error + (string \<rightharpoonup> job_dict)" where
  "change_attribute_name jobs event new_value =
     (if plain event \<and> plain new_value
      then (case jobs event of
              None \<Rightarrow> Inl KeyError
            | Some j \<Rightarrow> Inr (jobs(event \<mapsto> j\<lparr>name := new_value\<rparr>)))
      else Inl ExecOutsideModel)"

definition change_attribute_submitted ::
    "(string \<rightharpoonup> job_dict) \<Rightarrow> string \<Rightarrow> bool \<Rightarrow> error + (string \<rightharpoonup> job_dict)" where
  "change_attribute_submitted jobs event new_value =
     (if plain event
      then (case jobs event of
              None \<Rightarrow> Inl KeyError
            | Some j \<Rightarrow> Inr (jobs(event \<mapsto> j\<lparr>submitted := new_value\<rparr>)))
      else Inl ExecOutsideModel)"

subsection \<open>Calls into \<^verbatim>\<open>salvus.flow.api\<close>\<close>

text \<open>Each call is appended to the trace, whether it returns or raises.\<close>

definition sapi_run_async :: "collaborators \<Rightarrow> string \<Rightarrow> simulation \<Rightarrow> int \<Rightarrow> int \<Rightarrow> world
    \<Rightarrow> string outcome" where
  "sapi_run_async c site input_file ranks wall_time_in_seconds w =
     (run_async_answer c (sapi_calls w) site input_file ranks wall_time_in_seconds,
      w\<lparr>sapi_calls := sapi_calls w @ [RunAsync site input_file ranks wall_time_in_seconds]\<rparr>)"

definition sapi_get_job :: "collaborators \<Rightarrow> string \<Rightarrow> string \<Rightarrow> world \<Rightarrow> job outcome" where
  "sapi_get_job c nm site w =
     ((case get_job_answer c (sapi_calls w) nm site of
         Some e \<Rightarrow> Inl e
       | None \<Rightarrow> Inr \<lparr>job_name = nm, job_site = site, job_array = False\<rparr>),
      w\<lparr>sapi_calls := sapi_calls w @ [GetJob nm site]\<rparr>)"

definition sapi_get_job_array :: "collaborators \<Rightarrow> string \<Rightarrow> string \<Rightarrow> world \<Rightarrow> job outcome" where
  "sapi_get_job_array c nm site w =
     ((case get_job_array_answer c (sapi_calls w) nm site of
         Some e \<Rightarrow> Inl e
       | None \<Rightarrow> Inr \<lparr>job_name = nm, job_site = site, job_array = True\<rparr>),
      w\<lparr>sapi_calls := sapi_calls w @ [GetJobArray nm site]\<rparr>)"

definition job_update_status :: "collaborators \<Rightarrow> job \<Rightarrow> bool \<Rightarrow> world \<Rightarrow> string outcome" where
  "job_update_status c j force_update w =
     (update_status_answer c (sapi_calls w) j force_update,
      w\<lparr>sapi_calls := sapi_calls w @ [UpdateStatus j force_update]\<rparr>)"

definition job_copy_output :: "collaborators \<Rightarrow> job \<Rightarrow> string \<Rightarrow> bool \<Rightarrow> world \<Rightarrow> unit outcome" where
  "job_copy_output c j destination allow_existing w =
     ((case copy_output_answer c (sapi_calls w) j destination allow_existing of
         Some e \<Rightarrow> Inl e
       | None \<Rightarrow> Inr ()),
      w\<lparr>sapi_calls := sapi_calls w @ [CopyOutput j destination allow_existing]\<rparr>)"

definition job_delete :: "collaborators \<Rightarrow> job \<Rightarrow> world \<Rightarrow> unit outcome" where
  "job_delete c j w =
     ((case delete_answer c (sapi_calls w) j of Some e \<Rightarrow> Inl e | None \<Rightarrow> Inr ()),
      w\<lparr>sapi_calls := sapi_calls w @ [Delete j]\<rparr>)"

subsection \<open>\<^verbatim>\<open>_get_job_name\<close>\<close>

text \<open>
  The name stored in memory for a job of the current iteration. \<^verbatim>\<open>self.smoothing_job\<close> is
  read as one job dictionary in mono-batch mode and by event otherwise; with the other
  shape the lookup finds no such key.
\<close>

definition current_job_name :: "world \<Rightarrow> string \<Rightarrow> string \<Rightarrow> error + string" where
  "current_job_name w event sim_type =
     (if sim_type = ''forward''
      then (case forward_job w event of None \<Rightarrow> Inl KeyError | Some j \<Rightarrow> Inr (name j))
      else if sim_type = ''adjoint''
      then (case adjoint_job w event of None \<Rightarrow> Inl KeyError | Some j \<Rightarrow> Inr (name j))
      else if inversion_mode w = ''mono-batch''
      then (case smoothing_job w of Single s \<Rightarrow> Inr (name s) | PerEvent sm \<Rightarrow> Inl KeyError)
      else (case smoothing_job w of
              PerEvent sm \<Rightarrow> (case sm event of None \<Rightarrow> Inl KeyError | Some j \<Rightarrow> Inr (name j))
            | Single s \<Rightarrow> Inl KeyError))"

text \<open>
  The new name: iteration, inversion id, simulation type and eight random characters,
  joined by underscores.
\<close>

definition new_job_name :: "collaborators \<Rightarrow> world \<Rightarrow> string \<Rightarrow> string \<Rightarrow> string" where
  "new_job_name c w iteration sim_type =
     iteration @ ''_'' @ inversion_id w @ ''_'' @ sim_type @ ''_'' @ unique_id c"

text \<open>
  \<^verbatim>\<open>_get_job_name(event, sim_type, new, iteration)\<close>; an Isabelle name cannot start
  with an underscore.
\<close>

definition internal_get_job_name ::
    "collaborators \<Rightarrow> string \<Rightarrow> string \<Rightarrow> bool \<Rightarrow> string \<Rightarrow> world \<Rightarrow> string outcome" where
  "internal_get_job_name c event sim_type new iteration0 w =
     (let old_iter = (iteration0 \<noteq> ''current'');
          iteration = (if iteration0 = ''current'' then current_iteration w else iteration0)
      in if sim_type \<notin> {''forward'', ''adjoint'', ''smoothing''}
         then (Inl ValueError, w)
         else case (if new
                    then (let job = new_job_name c w iteration sim_type
                          in if sim_type = ''forward''
                             then (case forward_job w event of
                                     None \<Rightarrow> (Inl KeyError, w)
                                   | Some j \<Rightarrow>
                                       (Inr job,
                                        w\<lparr>forward_job := (forward_job w)(event \<mapsto> j\<lparr>name := job\<rparr>)\<rparr>))
                             else if sim_type = ''adjoint''
                             then (case adjoint_job w event of
                                     None \<Rightarrow> (Inl KeyError, w)
                                   | Some j \<Rightarrow>
                                       (Inr job,
                                        w\<lparr>adjoint_job := (adjoint_job w)(event \<mapsto> j\<lparr>name := job\<rparr>)\<rparr>))
                             else (Inl InversionsonError, w))
                    else if old_iter
                    then (case get_old_iteration_info iteration w of
                            Inl e \<Rightarrow> (Inl e, w)
                          | Inr iteration_info \<Rightarrow> (stored_job_name iteration_info event sim_type, w))
                    else (current_job_name w event sim_type, w))
              of (Inl e, w1) \<Rightarrow> (Inl e, w1)
               | (Inr job, w1) \<Rightarrow>
                   (case update_iteration_toml c ''current'' False w1 of
                      (Inl e, w2) \<Rightarrow> (Inl e, w2)
                    | (Inr u, w2) \<Rightarrow> (Inr job, w2)))"

definition get_job_name :: "collaborators \<Rightarrow> string \<Rightarrow> string \<Rightarrow> string \<Rightarrow> world \<Rightarrow> string outcome" where
  "get_job_name c event sim_type iteration w =
     internal_get_job_name c event sim_type False iteration w"

subsection \<open>\<^verbatim>\<open>get_job\<close> and \<^verbatim>\<open>get_job_status\<close>\<close>

text \<open>The name of a job of the current iteration, which must have been submitted.\<close>

definition submitted_name :: "job_dict \<Rightarrow> error + string" where
  "submitted_name j = (if submitted j then Inr (name j) else Inl InversionsonError)"

text \<open>
  The job name \<^verbatim>\<open>get_job\<close> resolves; \<open>Inr None\<close> when no branch assigns \<^verbatim>\<open>job_name\<close>
  (a simulation type that is none of the three, in the current iteration).
\<close>

definition resolve_job_name :: "world \<Rightarrow> string \<Rightarrow> string \<Rightarrow> string \<Rightarrow> error + string option" where
  "resolve_job_name w event sim_type iteration =
     (if iteration = ''current'' \<or> iteration = current_iteration w
      then (if sim_type = ''forward''
            then (case forward_job w event of
                    None \<Rightarrow> Inl KeyError
                  | Some j \<Rightarrow> map_sum id Some (submitted_name j))
            else if sim_type = ''adjoint''
            then (case adjoint_job w event of
                    None \<Rightarrow> Inl KeyError
                  | Some j \<Rightarrow> map_sum id Some (submitted_name j))
            else if sim_type = ''smoothing''
            then (if inversion_mode w = ''mono-batch''
                  then (case smoothing_job w of
                          Single s \<Rightarrow> map_sum id Some (submitted_name s)
                        | PerEvent sm \<Rightarrow> Inl KeyError)
                  else (case smoothing_job w of
                          PerEvent sm \<Rightarrow>
                            (case sm event of
                               None \<Rightarrow> Inl KeyError
                             | Some s \<Rightarrow> map_sum id Some (submitted_name s))
                        | Single s \<Rightarrow> Inl KeyError))
            else Inr None)
      else (case get_old_iteration_info iteration w of
              Inl e \<Rightarrow> Inl e
            | Inr it \<Rightarrow>
                if sim_type = ''smoothing'' \<and> inversion_mode w = ''mono-batch''
                then (case it_smoothing it of
                        None \<Rightarrow> Inl KeyError
                      | Some s \<Rightarrow> Inr (Some (name s)))
                else map_sum id Some (stored_job_name it event sim_type)))"

definition get_job :: "collaborators \<Rightarrow> string \<Rightarrow> string \<Rightarrow> string \<Rightarrow> world \<Rightarrow> job outcome" where
  "get_job c event sim_type iteration w =
     (case resolve_job_name w event sim_type iteration of
        Inl e \<Rightarrow> (Inl e, w)
      | Inr None \<Rightarrow> (Inl UnboundLocalError, w)
      | Inr (Some nm) \<Rightarrow>
          if sim_type = ''smoothing''
          then sapi_get_job_array c nm (smoothing_site_name w) w
          else sapi_get_job c nm (site_name w) w)"

definition get_job_status :: "collaborators \<Rightarrow> string \<Rightarrow> string \<Rightarrow> string \<Rightarrow> world \<Rightarrow> string outcome" where
  "get_job_status c event sim_type iteration w =
     (case get_job c event sim_type iteration w of
        (Inl e, w1) \<Rightarrow> (Inl e, w1)
      | (Inr j, w1) \<Rightarrow> job_update_status c j True w1)"

subsection \<open>\<^verbatim>\<open>retrieve_outputs\<close>\<close>

definition retrieve_outputs :: "collaborators \<Rightarrow> string \<Rightarrow> string \<Rightarrow> world \<Rightarrow> unit outcome" where
  "retrieve_outputs c event_name sim_type w =
     (case internal_get_job_name c event_name sim_type False ''current'' w of
        (Inl e, w1) \<Rightarrow> (Inl e, w1)
      | (Inr nm, w1) \<Rightarrow>
          (case sapi_get_job c nm (site_name w1) w1 of
             (Inl e, w2) \<Rightarrow> (Inl e, w2)
           | (Inr salvus_job, w2) \<Rightarrow>
               if sim_type = ''forward''
               then job_copy_output c salvus_job
                      (dirname (find_seismograms c event_name (current_iteration w2))) True w2
               else if sim_type = ''adjoint''
               then job_copy_output c salvus_job
                      (dirname (find_gradient c (current_iteration w2) event_name)) True w2
               else (Inl InversionsonError, w2)))"

subsection \<open>\<^verbatim>\<open>submit_job\<close>\<close>

text \<open>
  The wall time passed in is replaced by the project's, doubled for an adjoint simulation.
  For a simulation type other than forward and adjoint the job is started and nothing is
  recorded.
\<close>

definition record_submission ::
    "(string \<rightharpoonup> job_dict) \<Rightarrow> string \<Rightarrow> string \<Rightarrow> (error + unit) \<times> (string \<rightharpoonup> job_dict)" where
  "record_submission jobs event nm =
     (case change_attribute_name jobs event nm of
        Inl e \<Rightarrow> (Inl e, jobs)
      | Inr jobs1 \<Rightarrow>
          (case change_attribute_submitted jobs1 event True of
             Inl e \<Rightarrow> (Inl e, jobs1)
           | Inr jobs2 \<Rightarrow> (Inr (), jobs2)))"

definition submit_job ::
    "collaborators \<Rightarrow> string \<Rightarrow> simulation \<Rightarrow> string \<Rightarrow> string \<Rightarrow> int \<Rightarrow> int \<Rightarrow> world \<Rightarrow> unit outcome" where
  "submit_job c event simulation sim_type site wall_time0 ranks w =
     (let wall_time1 = (if sim_type = ''adjoint'' then wall_time w * 2 else wall_time w)
      in case sapi_run_async c site simulation ranks wall_time1 w of
           (Inl e, w1) \<Rightarrow> (Inl e, w1)
         | (Inr nm, w1) \<Rightarrow>
             if sim_type = ''forward''
             then (case record_submission (forward_job w1) event nm of
                     (Inl e, jobs) \<Rightarrow> (Inl e, w1\<lparr>forward_job := jobs\<rparr>)
                   | (Inr u, jobs) \<Rightarrow>
                       update_iteration_toml c ''current'' False (w1\<lparr>forward_job := jobs\<rparr>))
             else if sim_type = ''adjoint''
             then (case record_submission (adjoint_job w1) event nm of
                     (Inl e, jobs) \<Rightarrow> (Inl e, w1\<lparr>adjoint_job := jobs\<rparr>)
                   | (Inr u, jobs) \<Rightarrow>
                       update_iteration_toml c ''current'' False (w1\<lparr>adjoint_job := jobs\<rparr>))
             else update_iteration_toml c ''current'' False w1)"

subsection \<open>\<^verbatim>\<open>delete_stored_wavefields\<close>\<close>

fun delete_events :: "collaborators \<Rightarrow> it_dict \<Rightarrow> string \<Rightarrow> string list \<Rightarrow> world \<Rightarrow> unit outcome" where
  "delete_events c iter_info sim_type [] w = (Inr (), w)"
| "delete_events c iter_info sim_type (event # rest) w =
     (case stored_job_name iter_info event sim_type of
        Inl e \<Rightarrow> (Inl e, w)
      | Inr nm \<Rightarrow>
          (case sapi_get_job c nm (site_name w) w of
             (Inl e, w1) \<Rightarrow> (Inl e, w1)
           | (Inr j, w1) \<Rightarrow>
               (case job_delete c j w1 of
                  (Inl e, w2) \<Rightarrow> (Inl e, w2)
                | (Inr u, w2) \<Rightarrow> delete_events c iter_info sim_type rest w2)))"

definition delete_stored_wavefields :: "collaborators \<Rightarrow> string \<Rightarrow> string \<Rightarrow> world \<Rightarrow> unit outcome" where
  "delete_stored_wavefields c iteration sim_type w =
     (case get_old_iteration_info iteration w of
        Inl e \<Rightarrow> (Inl e, w)
      | Inr iter_info \<Rightarrow> delete_events c iter_info sim_type (map fst (it_events iter_info)) w)"

subsection \<open>Reading the files back\<close>

text \<open>The job dictionary stored in an iteration file, and a group of the control-group file.\<close>

definition written_job :: "world \<Rightarrow> string \<Rightarrow> string \<Rightarrow> string \<Rightarrow> job_dict option" where
  "written_job w iteration event sim_type =
     (case iteration_tomls w (iteration_toml iteration) of
        None \<Rightarrow> None
      | Some it \<Rightarrow>
          (case map_of (it_events it) event of
             None \<Rightarrow> None
           | Some ev \<Rightarrow> job_info ev sim_type))"

definition ledger_group :: "world \<Rightarrow> string \<Rightarrow> string \<Rightarrow> string list option" where
  "ledger_group w iteration key =
     (case control_group_toml w of
        None \<Rightarrow> None
      | Some cg \<Rightarrow> (case cg iteration of None \<Rightarrow> None | Some grp \<Rightarrow> grp key))"

text \<open>The job dictionary in memory that a simulation type and an event select.\<close>

definition job_in_memory :: "world \<Rightarrow> string \<Rightarrow> string \<Rightarrow> job_dict option" where
  "job_in_memory w sim_type event =
     (if sim_type = ''forward'' then forward_job w event
      else if sim_type = ''adjoint'' then adjoint_job w event
      else (case smoothing_job w of PerEvent sm \<Rightarrow> sm event | Single s \<Rightarrow> Some s))"

text \<open>The state with one more job dictionary stored for a forward or adjoint job.\<close>

definition store_job :: "world \<Rightarrow> string \<Rightarrow> string \<Rightarrow> job_dict \<Rightarrow> world" where
  "store_job w sim_type event j =
     (if sim_type = ''forward'' then w\<lparr>forward_job := (forward_job w)(event \<mapsto> j)\<rparr>
      else if sim_type = ''adjoint'' then w\<lparr>adjoint_job := (adjoint_job w)(event \<mapsto> j)\<rparr>
      else w)"

subsection \<open>Example states\<close>

text \<open>
  An inversion in mini-batch mode on multi-mesh with the events E1 and E2. In
  \<open>demo_world\<close> the second iteration is running: the forward jobs of both events are
  submitted, nothing else is.
\<close>

definition demo_collaborators :: collaborators where
  "demo_collaborators =
     \<lparr>list_events = (\<lambda>iteration. [''E1'', ''E2'']),
      find_seismograms = (\<lambda>event iteration. ''/syn/'' @ event @ ''/receivers.h5''),
      find_gradient = (\<lambda>iteration event. ''/grad/'' @ event @ ''/gradient.h5''),
      get_previous_iteration_name = ''it0000_model'',
      unique_id = ''0123ABCD'',
      run_async_answer = (\<lambda>calls site input_file ranks wt. Inr ''job-def''),
      get_job_answer = (\<lambda>calls nm site. None),
      get_job_array_answer = (\<lambda>calls nm site. None),
      update_status_answer = (\<lambda>calls j force_update. Inr ''RUNNING''),
      copy_output_answer = (\<lambda>calls j destination allow_existing. None),
      delete_answer = (\<lambda>calls j. None)\<rparr>"

definition fresh_world :: world where
  "fresh_world =
     \<lparr>inversion_id = ''inv'', inversion_mode = ''mini-batch'', meshes = ''multi-mesh'',
      site_name = ''daint'', smoothing_site_name = ''daint_smooth'', wall_time = 3600,
      current_iteration = ''it0000_model'', new_control_group = [],
      forward_job = Map.empty, adjoint_job = Map.empty, smoothing_job = PerEvent Map.empty,
      misfits = Map.empty, updated = Map.empty,
      iteration_tomls = Map.empty, control_group_toml = None,
      warnings = [], sapi_calls = []\<rparr>"

definition job_abc :: job_dict where
  "job_abc = \<lparr>name = ''job-abc'', submitted = True, retrieved = False, reposts = 0,
               interpolated = Some False, windows_selected = None\<rparr>"

definition job_xyz :: job_dict where
  "job_xyz = \<lparr>name = ''job-xyz'', submitted = True, retrieved = False, reposts = 0,
               interpolated = Some False, windows_selected = None\<rparr>"

definition job_unsubmitted :: job_dict where
  "job_unsubmitted = \<lparr>name = [], submitted = False, retrieved = False, reposts = 0,
                       interpolated = Some False, windows_selected = None\<rparr>"

definition demo_it_dict :: it_dict where
  "demo_it_dict =
     \<lparr>it_name = ''it0001_model'',
      it_events =
        [(''E1'', \<lparr>job_info = [''forward'' \<mapsto> job_abc, ''adjoint'' \<mapsto> job_unsubmitted,
                               ''smoothing'' \<mapsto> empty_job],
                   misfit = Some 0, usage_updated = Some False\<rparr>),
         (''E2'', \<lparr>job_info = [''forward'' \<mapsto> job_xyz, ''adjoint'' \<mapsto> job_unsubmitted,
                               ''smoothing'' \<mapsto> empty_job],
                   misfit = Some 0, usage_updated = Some False\<rparr>)],
      it_last_control_group = Some [''E1''],
      it_new_control_group = Some [''E2''],
      it_smoothing = None\<rparr>"

definition demo_world :: world where
  "demo_world =
     \<lparr>inversion_id = ''inv'', inversion_mode = ''mini-batch'', meshes = ''multi-mesh'',
      site_name = ''daint'', smoothing_site_name = ''daint_smooth'', wall_time = 3600,
      current_iteration = ''it0001_model'', new_control_group = [''E2''],
      forward_job = [''E1'' \<mapsto> job_abc, ''E2'' \<mapsto> job_xyz],
      adjoint_job = [''E1'' \<mapsto> job_unsubmitted, ''E2'' \<mapsto> job_unsubmitted],
      smoothing_job = PerEvent [''E1'' \<mapsto> empty_job, ''E2'' \<mapsto> empty_job],
      misfits = [''E1'' \<mapsto> 0, ''E2'' \<mapsto> 0],
      updated = [''E1'' \<mapsto> False, ''E2'' \<mapsto> False],
      iteration_tomls = [''it0001_model.toml'' \<mapsto> demo_it_dict],
      control_group_toml =
        Some [''it0000_model'' \<mapsto> [''old'' \<mapsto> [], ''new'' \<mapsto> [''E1'']],
              ''it0001_model'' \<mapsto> [''old'' \<mapsto> [''E1''], ''new'' \<mapsto> [''E2'']]],
      warnings = [], sapi_calls = []\<rparr>"

text \<open>The same iteration in mono-batch mode, with the one smoothing job of the iteration.\<close>

definition mono_world :: world where
  "mono_world = demo_world\<lparr>inversion_mode := ''mono-batch'', smoothing_job := Single empty_job\<rparr>"

text \<open>A backend on which deleting the job of E1 fails.\<close>

definition failing_delete :: collaborators where
  "failing_delete =
     demo_collaborators\<lparr>delete_answer :=
       (\<lambda>calls j. if job_name j = ''job-abc''
                   then Some (SalvusFlowError ''delete failed'') else None)\<rparr>"

text \<open>A backend that refuses every submission.\<close>

definition failing_submit :: collaborators where
  "failing_submit =
     demo_collaborators\<lparr>run_async_answer :=
       (\<lambda>calls site input_file ranks wt. Inl (SalvusFlowError ''site unreachable''))\<rparr>"

text \<open>
  The example after \<^verbatim>\<open>_get_job_name(event="E1", sim_type="adjoint", new=True)\<close>, and after
  a submission of that job which the backend then refuses.
\<close>

definition named_world :: world where
  "named_world =
     snd (internal_get_job_name demo_collaborators ''E1'' ''adjoint'' True ''current'' demo_world)"

definition refused_world :: world where
  "refused_world =
     snd (submit_job failing_submit ''E1'' (Simulation ''adjoint E1'') ''adjoint'' ''daint'' 3600
            1024 named_world)"

subsection \<open>Reading the trace\<close>

definition is_status_query :: "sapi_call \<Rightarrow> bool" where
  "is_status_query call = (case call of UpdateStatus j force_update \<Rightarrow> True | _ \<Rightarrow> False)"

text \<open>
  The two calls one round of the loop of \<^verbatim>\<open>delete_stored_wavefields\<close> issues for an event
  whose job name is stored.
\<close>

definition deletion_calls :: "string \<Rightarrow> it_dict \<Rightarrow> string \<Rightarrow> string \<Rightarrow> sapi_call list" where
  "deletion_calls site iter_info sim_type event =
     (case stored_job_name iter_info event sim_type of
        Inl e \<Rightarrow> []
      | Inr nm \<Rightarrow>
          [GetJob nm site, Delete \<lparr>job_name = nm, job_site = site, job_array = False\<rparr>])"

section \<open>Properties\<close>

subsection \<open>Creating an iteration file\<close>

lemma map_of_create_events:
  "map_of (create_events entry es evs) k = (if k \<in> set es then Some entry else map_of evs k)"
  by (induction es arbitrary: evs) (auto simp: update_conv')

lemma keys_create_events:
  "fst ` set (create_events entry es evs) = set es \<union> fst ` set evs"
  by (induction es arbitrary: evs) (auto simp: dom_update)

lemma backup_neq_iteration_toml: "backup iteration \<noteq> iteration_toml iteration"
proof
  assume "backup iteration = iteration_toml iteration"
  then have "length (backup iteration) = length (iteration_toml iteration)" by simp
  then show False by (simp add: backup_def iteration_toml_def)
qed

lemma create_iteration_toml_first_ok: "fst (create_iteration_toml c ''it0000_model'' w) = Inr ()"
  by (simp add: create_iteration_toml_def Let_def split: option.splits)

lemma create_iteration_toml_written:
  assumes "create_iteration_toml c iteration w = (Inr (), w')"
  shows "\<exists>g. iteration_tomls w' (iteration_toml iteration) =
           Some (create_it_dict c w iteration (str_in ''validation'' iteration) g)
         \<and> (if iteration \<noteq> ''it0000_model'' \<and> \<not> str_in ''validation'' iteration
            then load_last_control_group c w = Inr g else g = [])"
  using assms
  by (auto simp: create_iteration_toml_def Let_def load_last_control_group_def
      split: option.splits sum.splits if_splits)

text \<open>
  C7, as amended. In mini-batch mode, a non-validation iteration that is created holds an
  entry for exactly the events the catalog lists. Each entry has the three jobs forward,
  adjoint and smoothing, all with an empty name, not submitted, not retrieved and no
  reposts; in multi-mesh mode the forward and the adjoint job carry
  \<^verbatim>\<open>interpolated = False\<close> and the smoothing job does not carry the key. The misfit is
  0.0, \<^verbatim>\<open>usage_updated\<close> is false, the new control group is empty, and so is the last
  control group of the first iteration, whose creation always succeeds.
\<close>

theorem create_iteration_toml_mini_batch:
  assumes "inversion_mode w = ''mini-batch''" and "\<not> str_in ''validation'' iteration"
    and "create_iteration_toml c iteration w = (Inr (), w')"
  shows "fst (create_iteration_toml c ''it0000_model'' w) = Inr () \<and>
    (\<exists>d. iteration_tomls w' (iteration_toml iteration) = Some d \<and> it_name d = iteration \<and>
      fst ` set (it_events d) = set (list_events c iteration) \<and>
      (\<forall>event \<in> set (list_events c iteration).
         map_of (it_events d) event =
           Some \<lparr>job_info =
                   [''forward'' \<mapsto> empty_job\<lparr>interpolated :=
                       (if meshes w = ''multi-mesh'' then Some False else None)\<rparr>,
                    ''adjoint'' \<mapsto> empty_job\<lparr>interpolated :=
                       (if meshes w = ''multi-mesh'' then Some False else None)\<rparr>,
                    ''smoothing'' \<mapsto> empty_job],
                 misfit = Some 0, usage_updated = Some False\<rparr>) \<and>
      it_new_control_group d = Some [] \<and> it_smoothing d = None \<and>
      (iteration = ''it0000_model'' \<longrightarrow> it_last_control_group d = Some []))"
proof -
  from create_iteration_toml_written[OF assms(3)] obtain g where
    d: "iteration_tomls w' (iteration_toml iteration) = Some (create_it_dict c w iteration False g)"
    and g: "iteration = ''it0000_model'' \<longrightarrow> g = []"
    using assms(2) by (auto split: if_splits)
  have ev: "create_event w False =
      \<lparr>job_info =
         [''forward'' \<mapsto> empty_job\<lparr>interpolated :=
             (if meshes w = ''multi-mesh'' then Some False else None)\<rparr>,
          ''adjoint'' \<mapsto> empty_job\<lparr>interpolated :=
             (if meshes w = ''multi-mesh'' then Some False else None)\<rparr>,
          ''smoothing'' \<mapsto> empty_job],
       misfit = Some 0, usage_updated = Some False\<rparr>"
    using assms(1)
    by (simp add: create_event_def f_job_dict_def a_job_dict_def s_job_dict_def empty_job_def)
  show ?thesis
    using d g ev assms(1)
    by (simp add: create_iteration_toml_first_ok create_it_dict_def map_of_create_events
        keys_create_events)
qed

text \<open>
  The first iteration of the example inversion, created from nothing: the adjoint job
  written for E2.
\<close>

theorem create_iteration_toml_mini_batch_witness:
  "written_job (snd (create_iteration_toml demo_collaborators ''it0000_model'' fresh_world))
     ''it0000_model'' ''E2'' ''adjoint'' = Some (empty_job\<lparr>interpolated := Some False\<rparr>)
   \<and> ledger_group fresh_world ''it0000_model'' ''new'' = None"
proof -
  have m: "inversion_mode fresh_world = ''mini-batch''" by (simp add: fresh_world_def)
  have v: "\<not> str_in ''validation'' ''it0000_model''" by simp
  have r: "create_iteration_toml demo_collaborators ''it0000_model'' fresh_world =
      (Inr (), snd (create_iteration_toml demo_collaborators ''it0000_model'' fresh_world))"
    by (simp add: prod_eq_iff create_iteration_toml_first_ok)
  have e: "''E2'' \<in> set (list_events demo_collaborators ''it0000_model'')"
    by (simp add: demo_collaborators_def)
  have ms: "meshes fresh_world = ''multi-mesh''" by (simp add: fresh_world_def)
  from create_iteration_toml_mini_batch[OF m v r] e ms show ?thesis
    by (auto simp: written_job_def ledger_group_def fresh_world_def)
qed

text \<open>
  C7 as stated gives all three jobs the key \<^verbatim>\<open>interpolated\<close> in multi-mesh mode. The
  smoothing job written for E1 in multi-mesh mode has no such key.
\<close>

theorem create_iteration_toml_smoothing_counterexample:
  "meshes fresh_world = ''multi-mesh'' \<and> inversion_mode fresh_world = ''mini-batch'' \<and>
   written_job (snd (create_iteration_toml demo_collaborators ''it0000_model'' fresh_world))
     ''it0000_model'' ''E1'' ''smoothing'' = Some empty_job \<and>
   interpolated empty_job = None \<and>
   written_job (snd (create_iteration_toml demo_collaborators ''it0000_model'' fresh_world))
     ''it0000_model'' ''E1'' ''smoothing'' \<noteq> Some (empty_job\<lparr>interpolated := Some False\<rparr>)"
  by (simp add: written_job_def create_iteration_toml_def fresh_world_def demo_collaborators_def
      iteration_toml_def create_it_dict_def create_event_def s_job_dict_def empty_job_def Let_def)

text \<open>
  C6. When the file of the iteration already exists, \<^verbatim>\<open>create_iteration_toml\<close> leaves a
  copy of its contents in the backup file and records a warning, whether or not the
  creation then succeeds. If it succeeds the active file holds the new dictionary; if it
  fails (the control group of the previous iteration cannot be read) the active file
  still holds the old contents. No other file of the directory changes.
\<close>

theorem create_iteration_toml_backs_up:
  assumes "iteration_tomls w (iteration_toml iteration) = Some existing"
    and "create_iteration_toml c iteration w = (r, w')"
  shows "iteration_tomls w' (backup iteration) = Some existing \<and>
         warnings w' = warnings w @ [backup_warning iteration] \<and>
         (case r of
            Inl e \<Rightarrow> iteration_tomls w' (iteration_toml iteration) = Some existing
          | Inr u \<Rightarrow> (\<exists>g. iteration_tomls w' (iteration_toml iteration) =
                Some (create_it_dict c w iteration (str_in ''validation'' iteration) g))) \<and>
         (\<forall>f. f \<noteq> backup iteration \<and> f \<noteq> iteration_toml iteration
              \<longrightarrow> iteration_tomls w' f = iteration_tomls w f)"
  using assms backup_neq_iteration_toml[of iteration]
  by (auto simp: create_iteration_toml_def Let_def split: sum.splits if_splits)

text \<open>
  Creating the running iteration of the example a second time: the old dictionary is in
  the backup, the warning is recorded, and the active file holds fresh jobs.
\<close>

theorem create_iteration_toml_backs_up_witness:
  "iteration_tomls demo_world (iteration_toml ''it0001_model'') = Some demo_it_dict \<and>
   iteration_tomls (snd (create_iteration_toml demo_collaborators ''it0001_model'' demo_world))
     (backup ''it0001_model'') = Some demo_it_dict \<and>
   warnings (snd (create_iteration_toml demo_collaborators ''it0001_model'' demo_world)) =
     [backup_warning ''it0001_model''] \<and>
   fst (create_iteration_toml demo_collaborators ''it0001_model'' demo_world) = Inr () \<and>
   written_job (snd (create_iteration_toml demo_collaborators ''it0001_model'' demo_world))
     ''it0001_model'' ''E1'' ''forward'' = Some (empty_job\<lparr>interpolated := Some False\<rparr>)"
proof -
  have ex: "iteration_tomls demo_world (iteration_toml ''it0001_model'') = Some demo_it_dict"
    by (simp add: demo_world_def iteration_toml_def)
  have ok: "fst (create_iteration_toml demo_collaborators ''it0001_model'' demo_world) = Inr ()"
    by (simp add: create_iteration_toml_def demo_world_def demo_collaborators_def
        load_last_control_group_def iteration_toml_def Let_def)
  have wj: "written_job (snd (create_iteration_toml demo_collaborators ''it0001_model'' demo_world))
     ''it0001_model'' ''E1'' ''forward'' = Some (empty_job\<lparr>interpolated := Some False\<rparr>)"
    by (simp add: written_job_def create_iteration_toml_def demo_world_def demo_collaborators_def
        load_last_control_group_def iteration_toml_def create_it_dict_def create_event_def
        f_job_dict_def empty_job_def Let_def)
  from create_iteration_toml_backs_up[OF ex prod.collapse[symmetric]] ex ok wj
  show ?thesis by (simp add: demo_world_def)
qed

subsection \<open>The control groups\<close>

lemma update_control_group_toml_start:
  assumes "control_group_toml w = Some cg"
    and "cg (get_previous_iteration_name c) = Some prev"
    and "prev ''new'' = Some g"
    and "get_previous_iteration_name c \<noteq> current_iteration w"
  shows "update_control_group_toml c False False w =
     (Inr (), w\<lparr>control_group_toml :=
        Some (cg(current_iteration w \<mapsto> [''old'' \<mapsto> g, ''new'' \<mapsto> []]))\<rparr>)"
  using assms by (simp add: update_control_group_toml_def Let_def bool_in_keys_def)

text \<open>
  C10. At the start of an iteration (\<^verbatim>\<open>new=False\<close>, \<^verbatim>\<open>first=False\<close>), when the
  control-group file holds the new group \<open>g\<close> of the previous iteration,
  \<^verbatim>\<open>update_control_group_toml\<close> replaces the whole entry of the current iteration by
  \<^verbatim>\<open>{old: g, new: []}\<close>. The result does not depend on the entry the iteration had: a new
  group committed before is gone. The other entries stay.
\<close>

theorem update_control_group_toml_resets_entry:
  assumes "control_group_toml w = Some cg"
    and "cg (get_previous_iteration_name c) = Some prev"
    and "prev ''new'' = Some g"
    and "get_previous_iteration_name c \<noteq> current_iteration w"
  shows "update_control_group_toml c False False w =
     (Inr (), w\<lparr>control_group_toml :=
        Some (cg(current_iteration w \<mapsto> [''old'' \<mapsto> g, ''new'' \<mapsto> []]))\<rparr>)"
  using assms by (rule update_control_group_toml_start)

text \<open>
  In the example the running iteration had committed the new group [E2]; after the call
  its new group is empty and its old group is the new group [E1] of the iteration before.
\<close>

theorem update_control_group_toml_resets_entry_witness:
  "ledger_group demo_world ''it0001_model'' ''new'' = Some [''E2''] \<and>
   fst (update_control_group_toml demo_collaborators False False demo_world) = Inr () \<and>
   ledger_group (snd (update_control_group_toml demo_collaborators False False demo_world))
     ''it0001_model'' ''new'' = Some [] \<and>
   ledger_group (snd (update_control_group_toml demo_collaborators False False demo_world))
     ''it0001_model'' ''old'' = Some [''E1'']"
proof -
  have a: "control_group_toml demo_world =
      Some [''it0000_model'' \<mapsto> [''old'' \<mapsto> [], ''new'' \<mapsto> [''E1'']],
            ''it0001_model'' \<mapsto> [''old'' \<mapsto> [''E1''], ''new'' \<mapsto> [''E2'']]]"
    by (simp add: demo_world_def)
  have b: "[''it0000_model'' \<mapsto> [''old'' \<mapsto> [], ''new'' \<mapsto> [''E1'']],
            ''it0001_model'' \<mapsto> [''old'' \<mapsto> [''E1''], ''new'' \<mapsto> [''E2'']]]
           (get_previous_iteration_name demo_collaborators)
         = Some [''old'' \<mapsto> [], ''new'' \<mapsto> [''E1'']]"
    by (simp add: demo_collaborators_def)
  have c: "[''old'' \<mapsto> [], ''new'' \<mapsto> [''E1'']] ''new'' = Some [''E1'']" by simp
  have d: "get_previous_iteration_name demo_collaborators \<noteq> current_iteration demo_world"
    by (simp add: demo_collaborators_def demo_world_def)
  have cur: "current_iteration demo_world = ''it0001_model''" by (simp add: demo_world_def)
  show ?thesis
    using update_control_group_toml_resets_entry[OF a b c d] a cur
    by (simp add: ledger_group_def)
qed

text \<open>
  C1. Let the control-group file hold the new group \<open>g\<close> of the previous iteration. A
  non-validation iteration other than \<^verbatim>\<open>it0000_model\<close> is then created with
  \<^verbatim>\<open>last_control_group = g\<close>, and the start-of-iteration update of the ledger leaves
  \<^verbatim>\<open>old\<close> of the current iteration equal to \<^verbatim>\<open>new\<close> of the previous one. The first
  iteration is created with an empty last control group, and the ledger created with
  \<^verbatim>\<open>first=True\<close> gives it an empty old group.
\<close>

theorem control_group_chaining:
  assumes "control_group_toml w = Some cg"
    and "cg (get_previous_iteration_name c) = Some prev"
    and "prev ''new'' = Some g"
    and "iteration \<noteq> ''it0000_model''" and "\<not> str_in ''validation'' iteration"
    and "get_previous_iteration_name c \<noteq> current_iteration w"
  shows "(\<exists>w' d. create_iteration_toml c iteration w = (Inr (), w') \<and>
            iteration_tomls w' (iteration_toml iteration) = Some d \<and>
            it_last_control_group d = Some g \<and>
            it_last_control_group d = ledger_group w (get_previous_iteration_name c) ''new'') \<and>
         (\<exists>w' d. create_iteration_toml c ''it0000_model'' w = (Inr (), w') \<and>
            iteration_tomls w' (iteration_toml ''it0000_model'') = Some d \<and>
            it_last_control_group d = Some []) \<and>
         (\<exists>w'. update_control_group_toml c False False w = (Inr (), w') \<and>
            ledger_group w' (current_iteration w) ''old'' = Some g \<and>
            ledger_group w' (current_iteration w) ''old'' =
              ledger_group w' (get_previous_iteration_name c) ''new'') \<and>
         ledger_group (snd (update_control_group_toml c new True w)) (current_iteration w) ''old''
           = Some []"
proof -
  have l: "load_last_control_group c w = Inr g"
    using assms(1-3) by (simp add: load_last_control_group_def)
  have l1: "\<And>w1. control_group_toml w1 = control_group_toml w \<Longrightarrow> load_last_control_group c w1 = Inr g"
    using assms(1-3) by (simp add: load_last_control_group_def)
  have A: "\<exists>w' d. create_iteration_toml c iteration w = (Inr (), w') \<and>
            iteration_tomls w' (iteration_toml iteration) = Some d \<and>
            it_last_control_group d = Some g \<and>
            it_last_control_group d = ledger_group w (get_previous_iteration_name c) ''new''"
    using assms(1-5)
    by (auto simp: create_iteration_toml_def Let_def l1 create_it_dict_def ledger_group_def
        split: option.splits)
  have B: "\<exists>w' d. create_iteration_toml c ''it0000_model'' w = (Inr (), w') \<and>
            iteration_tomls w' (iteration_toml ''it0000_model'') = Some d \<and>
            it_last_control_group d = Some []"
    by (auto simp: create_iteration_toml_def Let_def create_it_dict_def split: option.splits)
  have C: "\<exists>w'. update_control_group_toml c False False w = (Inr (), w') \<and>
            ledger_group w' (current_iteration w) ''old'' = Some g \<and>
            ledger_group w' (current_iteration w) ''old'' =
              ledger_group w' (get_previous_iteration_name c) ''new''"
    using update_control_group_toml_start[OF assms(1-3) assms(6)] assms(2,3,6)
    by (simp add: ledger_group_def)
  have D: "ledger_group (snd (update_control_group_toml c new True w)) (current_iteration w) ''old''
           = Some []"
    by (simp add: update_control_group_toml_def ledger_group_def)
  from A B C D show ?thesis by blast
qed

text \<open>
  The second iteration of the example, created after the first one recorded the new
  group [E1].
\<close>

theorem control_group_chaining_witness:
  "it_last_control_group demo_it_dict = Some [''E1''] \<and>
   ledger_group demo_world ''it0000_model'' ''new'' = Some [''E1''] \<and>
   (\<exists>w' d. create_iteration_toml demo_collaborators ''it0001_model'' demo_world = (Inr (), w') \<and>
      iteration_tomls w' (iteration_toml ''it0001_model'') = Some d \<and>
      it_last_control_group d = Some [''E1''])"
proof -
  have a: "control_group_toml demo_world =
      Some [''it0000_model'' \<mapsto> [''old'' \<mapsto> [], ''new'' \<mapsto> [''E1'']],
            ''it0001_model'' \<mapsto> [''old'' \<mapsto> [''E1''], ''new'' \<mapsto> [''E2'']]]"
    by (simp add: demo_world_def)
  have b: "[''it0000_model'' \<mapsto> [''old'' \<mapsto> [], ''new'' \<mapsto> [''E1'']],
            ''it0001_model'' \<mapsto> [''old'' \<mapsto> [''E1''], ''new'' \<mapsto> [''E2'']]]
           (get_previous_iteration_name demo_collaborators)
         = Some [''old'' \<mapsto> [], ''new'' \<mapsto> [''E1'']]"
    by (simp add: demo_collaborators_def)
  have c: "[''old'' \<mapsto> [], ''new'' \<mapsto> [''E1'']] ''new'' = Some [''E1'']" by simp
  have d: "get_previous_iteration_name demo_collaborators \<noteq> current_iteration demo_world"
    by (simp add: demo_collaborators_def demo_world_def)
  have e: "''it0001_model'' \<noteq> ''it0000_model''" by simp
  have f: "\<not> str_in ''validation'' ''it0001_model''" by simp
  have g: "it_last_control_group demo_it_dict = Some [''E1'']" by (simp add: demo_it_dict_def)
  have h: "ledger_group demo_world ''it0000_model'' ''new'' = Some [''E1'']"
    by (simp add: ledger_group_def demo_world_def)
  from control_group_chaining[OF a b c e f d] g h show ?thesis by blast
qed

subsection \<open>Saving the iteration\<close>

lemma update_event_error: "update_event w validation event = Inl e \<Longrightarrow> e = KeyError"
  unfolding update_event_def
  by (auto split: option.splits if_splits smoothing_jobs.splits sum.splits)

lemma update_events_error: "update_events w validation es evs = Inl e \<Longrightarrow> e = KeyError"
  by (induction es arbitrary: evs) (auto split: sum.splits dest: update_event_error)

lemma control_group_dict_error: "control_group_dict w iteration validation = Inl e \<Longrightarrow> e = KeyError"
  unfolding control_group_dict_def by (auto split: option.splits if_splits)

lemma control_groups_of_error: "control_groups_of cgd validation = Inl e \<Longrightarrow> e = KeyError"
  unfolding control_groups_of_def by (auto split: option.splits if_splits)

lemma build_it_dict_error: "build_it_dict c w iteration validation = Inl e \<Longrightarrow> e = KeyError"
  unfolding build_it_dict_def
  by (auto split: sum.splits prod.splits
      dest: update_events_error control_group_dict_error control_groups_of_error)

lemma build_it_dict_smoothing: "build_it_dict c w iteration validation = Inr it \<Longrightarrow> it_smoothing it = None"
  unfolding build_it_dict_def by (auto split: sum.splits prod.splits)

text \<open>
  \<^verbatim>\<open>update_iteration_toml\<close> either fails and leaves the state as it was, or succeeds and
  changes the iteration files only.
\<close>

lemma update_iteration_toml_cases:
  "(\<exists>e. (e = InversionsonError \<or> e = KeyError) \<and> update_iteration_toml c iteration0 validation0 w = (Inl e, w)) \<or>
   (\<exists>f. update_iteration_toml c iteration0 validation0 w = (Inr (), w\<lparr>iteration_tomls := f\<rparr>))"
proof (cases "resolve_iteration w iteration0 validation0")
  case (Pair iteration validation)
  show ?thesis
  proof (cases "build_it_dict c w iteration validation")
    case (Inl e)
    then show ?thesis
      using Pair build_it_dict_error[OF Inl] by (simp add: update_iteration_toml_def)
  next
    case (Inr it)
    then show ?thesis
      using Pair build_it_dict_smoothing[OF Inr]
      by (auto simp: update_iteration_toml_def Let_def)
  qed
qed

text \<open>
  In mono-batch mode no non-validation iteration is ever saved: the lookup of the key
  \<^verbatim>\<open>smoothing\<close> fails, if nothing fails before it, and no file is written.
\<close>

lemma update_iteration_toml_mono_batch_fails:
  assumes "inversion_mode w = ''mono-batch''"
    and "snd (resolve_iteration w iteration0 validation0) = False"
  shows "\<exists>e. update_iteration_toml c iteration0 validation0 w = (Inl e, w)"
proof (cases "resolve_iteration w iteration0 validation0")
  case (Pair iteration validation)
  with assms(2) have v: "\<not> validation" by simp
  show ?thesis
  proof (cases "build_it_dict c w iteration validation")
    case (Inl e)
    then show ?thesis using Pair by (simp add: update_iteration_toml_def)
  next
    case (Inr it)
    then show ?thesis
      using Pair v assms(1) build_it_dict_smoothing[OF Inr]
      by (simp add: update_iteration_toml_def Let_def)
  qed
qed

text \<open>
  C4. Saving is meant to write the state in full, in mono-batch mode with the smoothing job
  of the iteration under the key \<^verbatim>\<open>smoothing\<close>. On the example in mono-batch mode, with
  every attribute in place and the file present, the call raises \<^verbatim>\<open>KeyError\<close> and the file
  keeps its old contents.
\<close>

theorem update_iteration_toml_mono_batch_KeyError:
  "update_iteration_toml demo_collaborators ''current'' False mono_world = (Inl KeyError, mono_world)"
  by (simp add: update_iteration_toml_def resolve_iteration_def build_it_dict_def
      control_groups_of_def mono_world_def demo_world_def demo_collaborators_def
      control_group_dict_def iteration_toml_def update_event_def Let_def)

text \<open>Saving changes neither the attributes in memory nor the trace.\<close>

lemma update_iteration_toml_memory:
  "forward_job (snd (update_iteration_toml c i v w)) = forward_job w"
  "adjoint_job (snd (update_iteration_toml c i v w)) = adjoint_job w"
  "smoothing_job (snd (update_iteration_toml c i v w)) = smoothing_job w"
  "sapi_calls (snd (update_iteration_toml c i v w)) = sapi_calls w"
  "site_name (snd (update_iteration_toml c i v w)) = site_name w"
  "current_iteration (snd (update_iteration_toml c i v w)) = current_iteration w"
  using update_iteration_toml_cases[of c i v w] by auto

lemma job_in_memory_update_iteration_toml:
  "job_in_memory (snd (update_iteration_toml c i v w)) sim_type event = job_in_memory w sim_type event"
  by (simp add: job_in_memory_def update_iteration_toml_memory)

subsection \<open>Submitting and naming jobs\<close>

text \<open>
  Plain text holds none of the characters on which the executed text is not the
  assignment: NUL, line feed, carriage return, double quote, backslash.
\<close>

lemma plain_excludes:
  assumes "plain s" and "ch \<in> set s"
  shows "ch \<noteq> CHR 0x00 \<and> ch \<noteq> CHR 0x0A \<and> ch \<noteq> CHR 0x0D \<and> ch \<noteq> CHR 0x22 \<and> ch \<noteq> CHR 0x5C"
proof -
  from assms have lo: "32 \<le> (of_char ch :: nat)" and q: "ch \<noteq> CHR 0x22" and b: "ch \<noteq> CHR 0x5C"
    by (simp_all add: plain_def list_all_iff)
  have n: "ch \<noteq> CHR 0x00"
  proof
    assume "ch = CHR 0x00"
    then have "(of_char ch :: nat) = 0" by simp
    with lo show False by simp
  qed
  have l: "ch \<noteq> CHR 0x0A"
  proof
    assume "ch = CHR 0x0A"
    then have "(of_char ch :: nat) = 10" by simp
    with lo show False by simp
  qed
  have r: "ch \<noteq> CHR 0x0D"
  proof
    assume "ch = CHR 0x0D"
    then have "(of_char ch :: nat) = 13" by simp
    with lo show False by simp
  qed
  from n l r q b show ?thesis by (intro conjI)
qed

lemma record_submission_ok:
  assumes "plain event" and "plain nm" and "jobs event = Some j"
  shows "record_submission jobs event nm = (Inr (), jobs(event \<mapsto> j\<lparr>name := nm, submitted := True\<rparr>))"
  using assms
  by (simp add: record_submission_def change_attribute_name_def change_attribute_submitted_def)

lemma new_job_name_nonempty: "new_job_name c w iteration sim_type \<noteq> []"
  by (simp add: new_job_name_def)

lemma submit_job_forward:
  assumes "run_async_answer c (sapi_calls w) site simulation ranks (wall_time w) = Inr nm"
    and "plain event" and "plain nm" and "forward_job w event = Some j"
  shows "submit_job c event simulation ''forward'' site wall_time0 ranks w =
     update_iteration_toml c ''current'' False
       (w\<lparr>sapi_calls := sapi_calls w @ [RunAsync site simulation ranks (wall_time w)],
          forward_job := (forward_job w)(event \<mapsto> j\<lparr>name := nm, submitted := True\<rparr>)\<rparr>)"
  using assms
  by (simp add: submit_job_def sapi_run_async_def record_submission_ok)

lemma submit_job_adjoint:
  assumes "run_async_answer c (sapi_calls w) site simulation ranks (wall_time w * 2) = Inr nm"
    and "plain event" and "plain nm" and "adjoint_job w event = Some j"
  shows "submit_job c event simulation ''adjoint'' site wall_time0 ranks w =
     update_iteration_toml c ''current'' False
       (w\<lparr>sapi_calls := sapi_calls w @ [RunAsync site simulation ranks (wall_time w * 2)],
          adjoint_job := (adjoint_job w)(event \<mapsto> j\<lparr>name := nm, submitted := True\<rparr>)\<rparr>)"
  using assms
  by (simp add: submit_job_def sapi_run_async_def record_submission_ok)

lemma submit_job_recorded:
  assumes "sim_type = ''forward'' \<or> sim_type = ''adjoint''"
    and "run_async_answer c (sapi_calls w) site simulation ranks
           (if sim_type = ''adjoint'' then wall_time w * 2 else wall_time w) = Inr nm"
    and "plain event" and "plain nm"
    and "job_in_memory w sim_type event = Some j"
  shows "job_in_memory (snd (submit_job c event simulation sim_type site wall_time0 ranks w))
           sim_type event = Some (j\<lparr>name := nm, submitted := True\<rparr>)"
proof -
  from assms(1) show ?thesis
  proof
    assume f: "sim_type = ''forward''"
    with assms have "forward_job w event = Some j"
      and "run_async_answer c (sapi_calls w) site simulation ranks (wall_time w) = Inr nm"
      by (simp_all add: job_in_memory_def)
    from submit_job_forward[OF this(2) assms(3,4) this(1)] f show ?thesis
      by (simp add: job_in_memory_def update_iteration_toml_memory)
  next
    assume a: "sim_type = ''adjoint''"
    with assms have "adjoint_job w event = Some j"
      and "run_async_answer c (sapi_calls w) site simulation ranks (wall_time w * 2) = Inr nm"
      by (simp_all add: job_in_memory_def)
    from submit_job_adjoint[OF this(2) assms(3,4) this(1)] a show ?thesis
      by (simp add: job_in_memory_def update_iteration_toml_memory)
  qed
qed


lemma submit_job_trace:
  "sapi_calls (snd (submit_job c event simulation sim_type site wall_time0 ranks w)) =
     sapi_calls w @ [RunAsync site simulation ranks
        (if sim_type = ''adjoint'' then wall_time w * 2 else wall_time w)]"
  unfolding submit_job_def sapi_run_async_def Let_def
  by (simp add: update_iteration_toml_memory split: sum.split prod.split)

lemma snd_relabel:
  "snd (case p of (Inl e, w2) \<Rightarrow> (Inl e, w2) | (Inr u, w2) \<Rightarrow> (Inr job, w2)) = snd p"
  by (cases p) (simp split: sum.split)

lemma internal_get_job_name_new_forward:
  assumes "forward_job w event = Some j"
  shows "snd (internal_get_job_name c event ''forward'' True iteration0 w) =
     snd (update_iteration_toml c ''current'' False
       (w\<lparr>forward_job := (forward_job w)(event \<mapsto> j\<lparr>name := new_job_name c w
            (if iteration0 = ''current'' then current_iteration w else iteration0) ''forward''\<rparr>)\<rparr>))"
  using assms by (simp add: internal_get_job_name_def Let_def snd_relabel)

lemma internal_get_job_name_new_adjoint:
  assumes "adjoint_job w event = Some j"
  shows "snd (internal_get_job_name c event ''adjoint'' True iteration0 w) =
     snd (update_iteration_toml c ''current'' False
       (w\<lparr>adjoint_job := (adjoint_job w)(event \<mapsto> j\<lparr>name := new_job_name c w
            (if iteration0 = ''current'' then current_iteration w else iteration0) ''adjoint''\<rparr>)\<rparr>))"
  using assms by (simp add: internal_get_job_name_def Let_def snd_relabel)

lemma internal_get_job_name_new:
  assumes "sim_type = ''forward'' \<or> sim_type = ''adjoint''"
    and "job_in_memory w sim_type event = Some j"
  shows "job_in_memory (snd (internal_get_job_name c event sim_type True iteration0 w)) sim_type event
       = Some (j\<lparr>name := new_job_name c w
            (if iteration0 = ''current'' then current_iteration w else iteration0) sim_type\<rparr>)"
proof -
  from assms(1) show ?thesis
  proof
    assume f: "sim_type = ''forward''"
    with assms(2) have "forward_job w event = Some j" by (simp add: job_in_memory_def)
    from internal_get_job_name_new_forward[OF this] f show ?thesis
      by (simp add: job_in_memory_def update_iteration_toml_memory)
  next
    assume a: "sim_type = ''adjoint''"
    with assms(2) have "adjoint_job w event = Some j" by (simp add: job_in_memory_def)
    from internal_get_job_name_new_adjoint[OF this] a show ?thesis
      by (simp add: job_in_memory_def update_iteration_toml_memory)
  qed
qed

text \<open>
  C2, as amended. For a forward or adjoint job that the project holds in memory,
  \<^verbatim>\<open>submit_job\<close> stores the job name the backend returned and sets \<^verbatim>\<open>submitted\<close> in the
  same call, also when saving the iteration fails afterwards; with a non-empty backend
  name the record then has a non-empty name and is submitted.
  \<^verbatim>\<open>_get_job_name(new=True)\<close> stores a generated, non-empty name and leaves
  \<^verbatim>\<open>submitted\<close> as it was.
\<close>

theorem submit_job_names_and_submits:
  assumes "sim_type = ''forward'' \<or> sim_type = ''adjoint''"
    and "job_in_memory w sim_type event = Some j"
    and "run_async_answer c (sapi_calls w) site simulation ranks
           (if sim_type = ''adjoint'' then wall_time w * 2 else wall_time w) = Inr nm"
    and "plain event" and "plain nm" and "nm \<noteq> []"
  shows "(\<exists>j'. job_in_memory (snd (submit_job c event simulation sim_type site wall_time0 ranks w))
                 sim_type event = Some j' \<and>
              j' = j\<lparr>name := nm, submitted := True\<rparr> \<and> (name j' \<noteq> [] \<longleftrightarrow> submitted j')) \<and>
         (\<exists>j'. job_in_memory (snd (internal_get_job_name c event sim_type True iteration0 w))
                 sim_type event = Some j' \<and>
              name j' \<noteq> [] \<and> submitted j' = submitted j \<and>
              j' = j\<lparr>name := new_job_name c w
                 (if iteration0 = ''current'' then current_iteration w else iteration0) sim_type\<rparr>)"
  using submit_job_recorded[OF assms(1,3,4,5,2)] internal_get_job_name_new[OF assms(1,2)] assms(6)
  by (simp add: new_job_name_nonempty)

lemma plain_E1: "plain ''E1''" by (simp add: plain_def)
lemma plain_job_def: "plain ''job-def''" by (simp add: plain_def)

lemma demo_adjoint_E1: "job_in_memory demo_world ''adjoint'' ''E1'' = Some job_unsubmitted"
  by (simp add: job_in_memory_def demo_world_def)

lemma demo_forward_E1: "job_in_memory demo_world ''forward'' ''E1'' = Some job_abc"
  by (simp add: job_in_memory_def demo_world_def)

text \<open>Submitting the adjoint job of E1 in the example: the backend names it job-def.\<close>

theorem submit_job_names_and_submits_witness:
  "job_in_memory demo_world ''adjoint'' ''E1'' = Some job_unsubmitted \<and>
   job_in_memory
     (snd (submit_job demo_collaborators ''E1'' (Simulation ''adjoint E1'') ''adjoint'' ''daint''
             3600 1024 demo_world)) ''adjoint'' ''E1''
     = Some (job_unsubmitted\<lparr>name := ''job-def'', submitted := True\<rparr>)"
proof -
  have t: "''adjoint'' = ''forward'' \<or> ''adjoint'' = ''adjoint''" by simp
  have a: "run_async_answer demo_collaborators (sapi_calls demo_world) ''daint''
       (Simulation ''adjoint E1'') 1024
       (if ''adjoint'' = ''adjoint'' then wall_time demo_world * 2 else wall_time demo_world)
     = Inr ''job-def''"
    by (simp add: demo_collaborators_def)
  have n: "''job-def'' \<noteq> []" by simp
  from submit_job_names_and_submits[OF t demo_adjoint_E1 a plain_E1 plain_job_def n,
      of 3600 "''current''"] demo_adjoint_E1
  show ?thesis by auto
qed

lemma submit_job_refused:
  assumes "run_async_answer c (sapi_calls w) site simulation ranks
           (if sim_type = ''adjoint'' then wall_time w * 2 else wall_time w) = Inl e"
  shows "submit_job c event simulation sim_type site wall_time0 ranks w =
     (Inl e, w\<lparr>sapi_calls := sapi_calls w @ [RunAsync site simulation ranks
        (if sim_type = ''adjoint'' then wall_time w * 2 else wall_time w)]\<rparr>)"
  using assms by (simp add: submit_job_def sapi_run_async_def Let_def)

lemma named_world_job:
  "job_in_memory named_world ''adjoint'' ''E1'' =
     Some (job_unsubmitted\<lparr>name := ''it0001_model_inv_adjoint_0123ABCD''\<rparr>)"
proof -
  have t: "''adjoint'' = ''forward'' \<or> ''adjoint'' = ''adjoint''" by simp
  from internal_get_job_name_new[OF t demo_adjoint_E1, of demo_collaborators "''current''"]
  show ?thesis
    by (simp add: named_world_def new_job_name_def demo_world_def demo_collaborators_def)
qed

lemma refused_submission:
  "submit_job failing_submit ''E1'' (Simulation ''adjoint E1'') ''adjoint'' ''daint'' 3600 1024
     named_world =
   (Inl (SalvusFlowError ''site unreachable''),
    named_world\<lparr>sapi_calls := sapi_calls named_world @
       [RunAsync ''daint'' (Simulation ''adjoint E1'') 1024 (wall_time named_world * 2)]\<rparr>)"
  using submit_job_refused[of failing_submit named_world "''daint''" "Simulation ''adjoint E1''"
      1024 "''adjoint''" "SalvusFlowError ''site unreachable''" "''E1''" 3600]
  by (simp add: failing_submit_def)

text \<open>
  C2 as stated fails on the adjoint job of E1. \<^verbatim>\<open>_get_job_name(new=True)\<close> gives the
  record a name and leaves it unsubmitted, and it stays so after the first submission
  call for the job, which the backend refuses.
\<close>

theorem name_without_submission_counterexample:
  "job_in_memory demo_world ''adjoint'' ''E1'' = Some job_unsubmitted \<and>
   map_option name (job_in_memory named_world ''adjoint'' ''E1'') =
     Some ''it0001_model_inv_adjoint_0123ABCD'' \<and>
   map_option submitted (job_in_memory named_world ''adjoint'' ''E1'') = Some False \<and>
   fst (submit_job failing_submit ''E1'' (Simulation ''adjoint E1'') ''adjoint'' ''daint'' 3600 1024
          named_world) = Inl (SalvusFlowError ''site unreachable'') \<and>
   map_option name (job_in_memory refused_world ''adjoint'' ''E1'') =
     Some ''it0001_model_inv_adjoint_0123ABCD'' \<and>
   map_option submitted (job_in_memory refused_world ''adjoint'' ''E1'') = Some False"
proof -
  have r: "job_in_memory refused_world ''adjoint'' ''E1'' = job_in_memory named_world ''adjoint'' ''E1''"
    by (simp add: refused_world_def refused_submission job_in_memory_def)
  show ?thesis
    by (simp add: demo_adjoint_E1 r named_world_job refused_submission job_unsubmitted_def)
qed

subsection \<open>Submitting a job twice\<close>

lemma submit_job_outcome:
  assumes "sim_type = ''forward'' \<or> sim_type = ''adjoint''"
    and "job_in_memory w sim_type event = Some j"
    and "run_async_answer c (sapi_calls w) site simulation ranks
           (if sim_type = ''adjoint'' then wall_time w * 2 else wall_time w) = Inr nm"
    and "plain event" and "plain nm"
  shows "fst (submit_job c event simulation sim_type site wall_time0 ranks w)
           \<in> {Inr (), Inl InversionsonError, Inl KeyError}"
proof -
  have u: "\<And>w'. fst (update_iteration_toml c ''current'' False w')
             \<in> {Inr (), Inl InversionsonError, Inl KeyError}"
  proof -
    fix w'
    show "fst (update_iteration_toml c ''current'' False w')
             \<in> {Inr (), Inl InversionsonError, Inl KeyError}"
      using update_iteration_toml_cases[of c "''current''" False w'] by auto
  qed
  from assms(1) show ?thesis
  proof
    assume f: "sim_type = ''forward''"
    with assms have "forward_job w event = Some j"
      and "run_async_answer c (sapi_calls w) site simulation ranks (wall_time w) = Inr nm"
      by (simp_all add: job_in_memory_def)
    from submit_job_forward[OF this(2) assms(4,5) this(1)] f u show ?thesis by simp
  next
    assume a: "sim_type = ''adjoint''"
    with assms have "adjoint_job w event = Some j"
      and "run_async_answer c (sapi_calls w) site simulation ranks (wall_time w * 2) = Inr nm"
      by (simp_all add: job_in_memory_def)
    from submit_job_adjoint[OF this(2) assms(4,5) this(1)] a u show ?thesis by simp
  qed
qed

text \<open>
  C5, as amended. \<^verbatim>\<open>submit_job\<close> does not look at the flag \<^verbatim>\<open>submitted\<close>. Called for a
  forward or adjoint job that is already submitted, it issues one more
  \<^verbatim>\<open>sapi.run_async\<close>, replaces the stored name by the name the backend returns and keeps
  the job submitted; the other fields, the reposts among them, stay. What the call then
  returns is what saving the iteration with that record returns: it ends normally when the
  save does, and otherwise with the error of the save.
\<close>

theorem submit_job_resubmits:
  assumes "sim_type = ''forward'' \<or> sim_type = ''adjoint''"
    and "job_in_memory w sim_type event = Some j" and "submitted j"
    and "run_async_answer c (sapi_calls w) site simulation ranks
           (if sim_type = ''adjoint'' then wall_time w * 2 else wall_time w) = Inr nm"
    and "plain event" and "plain nm"
  shows "submit_job c event simulation sim_type site wall_time0 ranks w =
           update_iteration_toml c ''current'' False
             (store_job
                (w\<lparr>sapi_calls := sapi_calls w @ [RunAsync site simulation ranks
                     (if sim_type = ''adjoint'' then wall_time w * 2 else wall_time w)]\<rparr>)
                sim_type event (j\<lparr>name := nm, submitted := True\<rparr>)) \<and>
         sapi_calls (snd (submit_job c event simulation sim_type site wall_time0 ranks w)) =
           sapi_calls w @ [RunAsync site simulation ranks
              (if sim_type = ''adjoint'' then wall_time w * 2 else wall_time w)] \<and>
         job_in_memory (snd (submit_job c event simulation sim_type site wall_time0 ranks w))
           sim_type event = Some (j\<lparr>name := nm, submitted := True\<rparr>) \<and>
         fst (submit_job c event simulation sim_type site wall_time0 ranks w)
           \<in> {Inr (), Inl InversionsonError, Inl KeyError}"
proof -
  have eq: "submit_job c event simulation sim_type site wall_time0 ranks w =
           update_iteration_toml c ''current'' False
             (store_job
                (w\<lparr>sapi_calls := sapi_calls w @ [RunAsync site simulation ranks
                     (if sim_type = ''adjoint'' then wall_time w * 2 else wall_time w)]\<rparr>)
                sim_type event (j\<lparr>name := nm, submitted := True\<rparr>))"
    using assms(1)
  proof
    assume f: "sim_type = ''forward''"
    with assms have "forward_job w event = Some j"
      and "run_async_answer c (sapi_calls w) site simulation ranks (wall_time w) = Inr nm"
      by (simp_all add: job_in_memory_def)
    from submit_job_forward[OF this(2) assms(5,6) this(1)] f show ?thesis
      by (simp add: store_job_def)
  next
    assume a: "sim_type = ''adjoint''"
    with assms have "adjoint_job w event = Some j"
      and "run_async_answer c (sapi_calls w) site simulation ranks (wall_time w * 2) = Inr nm"
      by (simp_all add: job_in_memory_def)
    from submit_job_adjoint[OF this(2) assms(5,6) this(1)] a show ?thesis
      by (simp add: store_job_def)
  qed
  show ?thesis
    using eq submit_job_trace[of c event simulation sim_type site wall_time0 ranks w]
      submit_job_recorded[OF assms(1,4,5,6,2), of wall_time0]
      submit_job_outcome[OF assms(1,2,4,5,6), of wall_time0]
    by simp
qed

lemma demo_saves:
  "fst (update_iteration_toml demo_collaborators ''current'' False
     (demo_world\<lparr>sapi_calls := tr, forward_job := (forward_job demo_world)(''E1'' \<mapsto> j)\<rparr>)) = Inr ()"
  by (simp add: update_iteration_toml_def resolve_iteration_def build_it_dict_def
      control_groups_of_def demo_world_def demo_collaborators_def
      control_group_dict_def iteration_toml_def update_event_def Let_def)

lemma demo_saves_unchanged:
  "fst (update_iteration_toml demo_collaborators ''current'' False demo_world) = Inr ()"
  by (simp add: update_iteration_toml_def resolve_iteration_def build_it_dict_def
      control_groups_of_def demo_world_def demo_collaborators_def
      control_group_dict_def iteration_toml_def update_event_def Let_def)


lemma demo_run_async_forward:
  "run_async_answer demo_collaborators (sapi_calls demo_world) ''daint'' (Simulation ''forward E1'')
     1024 (wall_time demo_world) = Inr ''job-def''"
  by (simp add: demo_collaborators_def)

lemma demo_forward_job_E1: "forward_job demo_world ''E1'' = Some job_abc"
  by (simp add: demo_world_def)

lemma demo_resubmission:
  "submit_job demo_collaborators ''E1'' (Simulation ''forward E1'') ''forward'' ''daint'' 3600 1024
     demo_world =
   update_iteration_toml demo_collaborators ''current'' False
     (demo_world\<lparr>sapi_calls := sapi_calls demo_world @
          [RunAsync ''daint'' (Simulation ''forward E1'') 1024 (wall_time demo_world)],
        forward_job := (forward_job demo_world)
          (''E1'' \<mapsto> job_abc\<lparr>name := ''job-def'', submitted := True\<rparr>)\<rparr>)"
  by (rule submit_job_forward[OF demo_run_async_forward plain_E1 plain_job_def demo_forward_job_E1])

text \<open>The forward job of E1 in the example, submitted as job-abc, submitted again.\<close>

theorem submit_job_resubmits_witness:
  "job_in_memory demo_world ''forward'' ''E1'' = Some job_abc \<and> submitted job_abc \<and>
   fst (submit_job demo_collaborators ''E1'' (Simulation ''forward E1'') ''forward'' ''daint''
          3600 1024 demo_world) = Inr () \<and>
   sapi_calls (snd (submit_job demo_collaborators ''E1'' (Simulation ''forward E1'') ''forward''
                      ''daint'' 3600 1024 demo_world)) =
     [RunAsync ''daint'' (Simulation ''forward E1'') 1024 3600] \<and>
   job_in_memory (snd (submit_job demo_collaborators ''E1'' (Simulation ''forward E1'') ''forward''
                         ''daint'' 3600 1024 demo_world)) ''forward'' ''E1'' =
     Some (job_abc\<lparr>name := ''job-def'', submitted := True\<rparr>)"
proof -
  have t: "''forward'' = ''forward'' \<or> ''forward'' = ''adjoint''" by simp
  have s: "submitted job_abc" by (simp add: job_abc_def)
  have a: "run_async_answer demo_collaborators (sapi_calls demo_world) ''daint''
       (Simulation ''forward E1'') 1024
       (if ''forward'' = ''adjoint'' then wall_time demo_world * 2 else wall_time demo_world)
     = Inr ''job-def''"
    by (simp add: demo_collaborators_def)
  have tr: "sapi_calls demo_world = []" and wt: "wall_time demo_world = 3600"
    by (simp_all add: demo_world_def)
  note inst = submit_job_resubmits[OF t demo_forward_E1 s a plain_E1 plain_job_def, of 3600]
  have ok: "fst (submit_job demo_collaborators ''E1'' (Simulation ''forward E1'')
      ''forward'' ''daint'' 3600 1024 demo_world) = Inr ()"
    using inst[THEN conjunct1] by (simp add: store_job_def demo_saves)
  have calls: "sapi_calls (snd (submit_job demo_collaborators ''E1'' (Simulation ''forward E1'')
      ''forward'' ''daint'' 3600 1024 demo_world)) =
     [RunAsync ''daint'' (Simulation ''forward E1'') 1024 3600]"
    using inst[THEN conjunct2, THEN conjunct1] by (simp add: tr wt)
  have mem: "job_in_memory (snd (submit_job demo_collaborators ''E1'' (Simulation ''forward E1'')
      ''forward'' ''daint'' 3600 1024 demo_world)) ''forward'' ''E1'' =
     Some (job_abc\<lparr>name := ''job-def'', submitted := True\<rparr>)"
    using inst[THEN conjunct2, THEN conjunct2, THEN conjunct1] by simp
  show ?thesis
    using demo_forward_E1 s ok calls mem by (intro conjI)
qed

text \<open>
  C5 as stated fails on the example: the second submission of the forward job of E1
  returns without an error, the backend has received it, and the stored name is the new
  one.
\<close>

theorem second_submission_counterexample:
  "map_option submitted (forward_job demo_world ''E1'') = Some True \<and>
   map_option name (forward_job demo_world ''E1'') = Some ''job-abc'' \<and>
   fst (submit_job demo_collaborators ''E1'' (Simulation ''forward E1'') ''forward'' ''daint'' 3600
          1024 demo_world) = Inr () \<and>
   sapi_calls (snd (submit_job demo_collaborators ''E1'' (Simulation ''forward E1'') ''forward''
                      ''daint'' 3600 1024 demo_world)) =
     [RunAsync ''daint'' (Simulation ''forward E1'') 1024 3600] \<and>
   map_option name (forward_job (snd (submit_job demo_collaborators ''E1''
       (Simulation ''forward E1'') ''forward'' ''daint'' 3600 1024 demo_world)) ''E1'') =
     Some ''job-def''"
proof -
  have tr: "sapi_calls demo_world = []" and wt: "wall_time demo_world = 3600"
    by (simp_all add: demo_world_def)
  show ?thesis
    by (simp add: demo_resubmission demo_saves update_iteration_toml_memory
        demo_forward_job_E1 tr wt job_abc_def)
qed

subsection \<open>Retrieving outputs\<close>

lemma internal_get_job_name_current:
  "internal_get_job_name c event sim_type False ''current'' w =
     (if sim_type \<notin> {''forward'', ''adjoint'', ''smoothing''} then (Inl ValueError, w)
      else case current_job_name w event sim_type of
             Inl e \<Rightarrow> (Inl e, w)
           | Inr job \<Rightarrow>
               (case update_iteration_toml c ''current'' False w of
                  (Inl e, w2) \<Rightarrow> (Inl e, w2)
                | (Inr u, w2) \<Rightarrow> (Inr job, w2)))"
  by (simp add: internal_get_job_name_def Let_def split: sum.split)

lemma internal_get_job_name_current_memory:
  "forward_job (snd (internal_get_job_name c event sim_type False ''current'' w)) = forward_job w"
  "adjoint_job (snd (internal_get_job_name c event sim_type False ''current'' w)) = adjoint_job w"
  "smoothing_job (snd (internal_get_job_name c event sim_type False ''current'' w)) = smoothing_job w"
  "sapi_calls (snd (internal_get_job_name c event sim_type False ''current'' w)) = sapi_calls w"
  "site_name (snd (internal_get_job_name c event sim_type False ''current'' w)) = site_name w"
  "current_iteration (snd (internal_get_job_name c event sim_type False ''current'' w)) = current_iteration w"
  by (simp_all add: internal_get_job_name_current snd_relabel update_iteration_toml_memory
      split: sum.split)

lemma internal_get_job_name_current_saved:
  assumes "internal_get_job_name c event sim_type False ''current'' w = (Inr nm, w1)"
  shows "update_iteration_toml c ''current'' False w = (Inr (), w1) \<and>
         current_job_name w event sim_type = Inr nm"
proof (cases "update_iteration_toml c ''current'' False w")
  case (Pair r w2)
  then show ?thesis
    using assms
    by (cases r) (auto simp: internal_get_job_name_current split: if_splits sum.splits)
qed

text \<open>What the backend would answer to a status query has no part in a retrieval.\<close>

lemma build_it_dict_status_free:
  "build_it_dict (c\<lparr>update_status_answer := st\<rparr>) w iteration validation =
   build_it_dict c w iteration validation"
  by (simp add: build_it_dict_def cong: sum.case_cong prod.case_cong)

lemma update_iteration_toml_status_free:
  "update_iteration_toml (c\<lparr>update_status_answer := st\<rparr>) i v w = update_iteration_toml c i v w"
  by (simp add: update_iteration_toml_def build_it_dict_status_free
      cong: sum.case_cong prod.case_cong if_cong)

lemma internal_get_job_name_status_free:
  "internal_get_job_name (c\<lparr>update_status_answer := st\<rparr>) event sim_type new i w =
   internal_get_job_name c event sim_type new i w"
  by (simp add: internal_get_job_name_def update_iteration_toml_status_free new_job_name_def
      cong: sum.case_cong prod.case_cong option.case_cong if_cong)

lemma retrieve_outputs_status_free:
  "retrieve_outputs (c\<lparr>update_status_answer := st\<rparr>) event sim_type w =
   retrieve_outputs c event sim_type w"
  by (simp add: retrieve_outputs_def internal_get_job_name_status_free sapi_get_job_def
      job_copy_output_def cong: sum.case_cong prod.case_cong option.case_cong if_cong)


lemma retrieve_outputs_memory:
  "forward_job (snd (retrieve_outputs c event sim_type w)) = forward_job w \<and>
   adjoint_job (snd (retrieve_outputs c event sim_type w)) = adjoint_job w \<and>
   smoothing_job (snd (retrieve_outputs c event sim_type w)) = smoothing_job w \<and>
   filter is_status_query (sapi_calls (snd (retrieve_outputs c event sim_type w))) =
     filter is_status_query (sapi_calls w)"
proof (cases "internal_get_job_name c event sim_type False ''current'' w")
  case (Pair r1 w1)
  have m: "forward_job w1 = forward_job w" "adjoint_job w1 = adjoint_job w"
    "smoothing_job w1 = smoothing_job w" "sapi_calls w1 = sapi_calls w"
    using internal_get_job_name_current_memory[of c event sim_type w] Pair by simp_all
  show ?thesis
  proof (cases r1)
    case (Inl e)
    with Pair m show ?thesis by (simp add: retrieve_outputs_def)
  next
    case (Inr nm)
    with Pair m show ?thesis
      by (simp add: retrieve_outputs_def sapi_get_job_def job_copy_output_def is_status_query_def
          split: option.split)
  qed
qed

lemma retrieve_outputs_copies:
  assumes "sim_type = ''forward'' \<or> sim_type = ''adjoint''"
    and "internal_get_job_name c event sim_type False ''current'' w = (Inr nm, w1)"
    and "get_job_answer c (sapi_calls w1) nm (site_name w1) = None"
  shows "retrieve_outputs c event sim_type w =
     job_copy_output c \<lparr>job_name = nm, job_site = site_name w1, job_array = False\<rparr>
       (dirname (if sim_type = ''forward''
                 then find_seismograms c event (current_iteration w1)
                 else find_gradient c (current_iteration w1) event))
       True (w1\<lparr>sapi_calls := sapi_calls w1 @ [GetJob nm (site_name w1)]\<rparr>)"
  using assms by (auto simp: retrieve_outputs_def sapi_get_job_def)

text \<open>
  C3, as amended. \<^verbatim>\<open>retrieve_outputs\<close> does not depend on the status of the job: it gives
  the same outcome whatever the backend would answer to a status query, and it issues no
  status query. For a forward or adjoint job whose name is found and whose iteration is
  saved by the lookup of the name, and which the backend knows, it fetches the job and
  issues \<^verbatim>\<open>copy_output\<close> to the directory of the destination; it succeeds exactly when
  that call does. For any other simulation type it fails. No job dictionary in memory
  changes: \<^verbatim>\<open>retrieved\<close> stays as it was.
\<close>

theorem retrieve_outputs_ignores_status:
  "retrieve_outputs (c\<lparr>update_status_answer := st\<rparr>) event sim_type w =
     retrieve_outputs c event sim_type w \<and>
   forward_job (snd (retrieve_outputs c event sim_type w)) = forward_job w \<and>
   adjoint_job (snd (retrieve_outputs c event sim_type w)) = adjoint_job w \<and>
   smoothing_job (snd (retrieve_outputs c event sim_type w)) = smoothing_job w \<and>
   filter is_status_query (sapi_calls (snd (retrieve_outputs c event sim_type w))) =
     filter is_status_query (sapi_calls w) \<and>
   ((sim_type = ''forward'' \<or> sim_type = ''adjoint'') \<and>
    internal_get_job_name c event sim_type False ''current'' w = (Inr nm, w1) \<and>
    get_job_answer c (sapi_calls w1) nm (site_name w1) = None \<longrightarrow>
      update_iteration_toml c ''current'' False w = (Inr (), w1) \<and>
      retrieve_outputs c event sim_type w =
        ((case copy_output_answer c (sapi_calls w @ [GetJob nm (site_name w)])
                \<lparr>job_name = nm, job_site = site_name w, job_array = False\<rparr>
                (dirname (if sim_type = ''forward''
                          then find_seismograms c event (current_iteration w)
                          else find_gradient c (current_iteration w) event)) True of
            Some e \<Rightarrow> Inl e
          | None \<Rightarrow> Inr ()),
         w1\<lparr>sapi_calls := sapi_calls w @
            [GetJob nm (site_name w),
             CopyOutput \<lparr>job_name = nm, job_site = site_name w, job_array = False\<rparr>
               (dirname (if sim_type = ''forward''
                         then find_seismograms c event (current_iteration w)
                         else find_gradient c (current_iteration w) event)) True]\<rparr>)) \<and>
   (sim_type \<noteq> ''forward'' \<and> sim_type \<noteq> ''adjoint'' \<longrightarrow>
      (\<exists>e. fst (retrieve_outputs c event sim_type w) = Inl e))"
proof -
  have S: "(sim_type = ''forward'' \<or> sim_type = ''adjoint'') \<and>
    internal_get_job_name c event sim_type False ''current'' w = (Inr nm, w1) \<and>
    get_job_answer c (sapi_calls w1) nm (site_name w1) = None \<longrightarrow>
      update_iteration_toml c ''current'' False w = (Inr (), w1) \<and>
      retrieve_outputs c event sim_type w =
        ((case copy_output_answer c (sapi_calls w @ [GetJob nm (site_name w)])
                \<lparr>job_name = nm, job_site = site_name w, job_array = False\<rparr>
                (dirname (if sim_type = ''forward''
                          then find_seismograms c event (current_iteration w)
                          else find_gradient c (current_iteration w) event)) True of
            Some e \<Rightarrow> Inl e
          | None \<Rightarrow> Inr ()),
         w1\<lparr>sapi_calls := sapi_calls w @
            [GetJob nm (site_name w),
             CopyOutput \<lparr>job_name = nm, job_site = site_name w, job_array = False\<rparr>
               (dirname (if sim_type = ''forward''
                         then find_seismograms c event (current_iteration w)
                         else find_gradient c (current_iteration w) event)) True]\<rparr>)"
  proof (intro impI, elim conjE)
    assume t: "sim_type = ''forward'' \<or> sim_type = ''adjoint''"
      and n: "internal_get_job_name c event sim_type False ''current'' w = (Inr nm, w1)"
      and g: "get_job_answer c (sapi_calls w1) nm (site_name w1) = None"
    have m: "sapi_calls w1 = sapi_calls w" "site_name w1 = site_name w"
      "current_iteration w1 = current_iteration w"
      using internal_get_job_name_current_memory[of c event sim_type w] n by simp_all
    have sv: "update_iteration_toml c ''current'' False w = (Inr (), w1)"
      using internal_get_job_name_current_saved[OF n] by simp
    show "update_iteration_toml c ''current'' False w = (Inr (), w1) \<and>
      retrieve_outputs c event sim_type w =
        ((case copy_output_answer c (sapi_calls w @ [GetJob nm (site_name w)])
                \<lparr>job_name = nm, job_site = site_name w, job_array = False\<rparr>
                (dirname (if sim_type = ''forward''
                          then find_seismograms c event (current_iteration w)
                          else find_gradient c (current_iteration w) event)) True of
            Some e \<Rightarrow> Inl e
          | None \<Rightarrow> Inr ()),
         w1\<lparr>sapi_calls := sapi_calls w @
            [GetJob nm (site_name w),
             CopyOutput \<lparr>job_name = nm, job_site = site_name w, job_array = False\<rparr>
               (dirname (if sim_type = ''forward''
                         then find_seismograms c event (current_iteration w)
                         else find_gradient c (current_iteration w) event)) True]\<rparr>)"
      using sv by (simp add: retrieve_outputs_copies[OF t n g] m job_copy_output_def)
  qed
  have F: "sim_type \<noteq> ''forward'' \<and> sim_type \<noteq> ''adjoint'' \<longrightarrow>
      (\<exists>e. fst (retrieve_outputs c event sim_type w) = Inl e)"
  proof (intro impI, elim conjE)
    assume nf: "sim_type \<noteq> ''forward''" and na: "sim_type \<noteq> ''adjoint''"
    obtain r1 w1' where i: "internal_get_job_name c event sim_type False ''current'' w = (r1, w1')"
      by (cases "internal_get_job_name c event sim_type False ''current'' w")
    show "\<exists>e. fst (retrieve_outputs c event sim_type w) = Inl e"
    proof (cases r1)
      case (Inl e)
      with i show ?thesis by (simp add: retrieve_outputs_def)
    next
      case (Inr nm')
      with i nf na show ?thesis
        by (simp add: retrieve_outputs_def sapi_get_job_def split: option.split)
    qed
  qed
  from retrieve_outputs_memory[of c event sim_type w] S F show ?thesis
    by (simp only: retrieve_outputs_status_free)
qed

text \<open>The example is consistent: saving the running iteration writes what the file holds.\<close>

lemma demo_save_is_identity:
  "update_iteration_toml demo_collaborators ''current'' False demo_world = (Inr (), demo_world)"
  by (simp add: update_iteration_toml_def resolve_iteration_def build_it_dict_def
      control_groups_of_def demo_world_def demo_collaborators_def demo_it_dict_def
      control_group_dict_def iteration_toml_def update_event_def Let_def)

lemma demo_job_name:
  "internal_get_job_name demo_collaborators ''E1'' ''forward'' False ''current'' demo_world =
     (Inr ''job-abc'', demo_world)"
proof -
  have "current_job_name demo_world ''E1'' ''forward'' = Inr ''job-abc''"
    by (simp add: current_job_name_def demo_world_def job_abc_def)
  then show ?thesis
    by (simp add: internal_get_job_name_current demo_save_is_identity)
qed

lemma demo_job_found:
  "get_job_answer demo_collaborators (sapi_calls demo_world) ''job-abc'' (site_name demo_world) = None"
  by (simp add: demo_collaborators_def)

lemma demo_destination:
  "dirname (find_seismograms demo_collaborators ''E1'' (current_iteration demo_world)) = ''/syn/E1''"
  by (simp add: dirname_def demo_collaborators_def)

lemma demo_retrieval:
  "retrieve_outputs demo_collaborators ''E1'' ''forward'' demo_world =
     (Inr (), demo_world\<lparr>sapi_calls :=
        [GetJob ''job-abc'' ''daint'',
         CopyOutput \<lparr>job_name = ''job-abc'', job_site = ''daint'', job_array = False\<rparr>
           ''/syn/E1'' True]\<rparr>)"
proof -
  have t: "''forward'' = ''forward'' \<or> ''forward'' = ''adjoint''" by simp
  have s: "site_name demo_world = ''daint''" "sapi_calls demo_world = []"
    by (simp_all add: demo_world_def)
  have c: "copy_output_answer demo_collaborators tr j d a = None" for tr j d a
    by (simp add: demo_collaborators_def)
  from retrieve_outputs_copies[OF t demo_job_name demo_job_found] show ?thesis
    by (simp add: demo_destination job_copy_output_def s c)
qed

text \<open>
  Retrieving the forward job of E1 in the example, with a backend that reports RUNNING and
  with one that reports COMPLETE.
\<close>

theorem retrieve_outputs_ignores_status_witness:
  "retrieve_outputs
     (demo_collaborators\<lparr>update_status_answer := (\<lambda>calls j force_update. Inr ''COMPLETE'')\<rparr>)
     ''E1'' ''forward'' demo_world =
     retrieve_outputs demo_collaborators ''E1'' ''forward'' demo_world \<and>
   forward_job (snd (retrieve_outputs demo_collaborators ''E1'' ''forward'' demo_world)) ''E1'' =
     Some job_abc \<and>
   update_iteration_toml demo_collaborators ''current'' False demo_world = (Inr (), demo_world) \<and>
   fst (retrieve_outputs demo_collaborators ''E1'' ''forward'' demo_world) = Inr ()"
proof -
  have t: "''forward'' = ''forward'' \<or> ''forward'' = ''adjoint''" by simp
  have c: "copy_output_answer demo_collaborators tr j d a = None" for tr j d a
    by (simp add: demo_collaborators_def)
  note inst = retrieve_outputs_ignores_status[where c = demo_collaborators
      and st = "\<lambda>calls j force_update. Inr ''COMPLETE''" and event = "''E1''"
      and sim_type = "''forward''" and w = demo_world and nm = "''job-abc''" and ?w1.0 = demo_world]
  from inst have 1: "retrieve_outputs
     (demo_collaborators\<lparr>update_status_answer := (\<lambda>calls j force_update. Inr ''COMPLETE'')\<rparr>)
     ''E1'' ''forward'' demo_world =
     retrieve_outputs demo_collaborators ''E1'' ''forward'' demo_world"
    by (rule conjunct1)
  from inst have 2: "forward_job (snd (retrieve_outputs demo_collaborators ''E1'' ''forward''
      demo_world)) = forward_job demo_world"
    by blast
  from inst t demo_job_name demo_job_found
  have 3: "update_iteration_toml demo_collaborators ''current'' False demo_world =
      (Inr (), demo_world) \<and>
    fst (retrieve_outputs demo_collaborators ''E1'' ''forward'' demo_world) = Inr ()"
    by (simp add: c)
  from 1 2 3 show ?thesis by (simp add: demo_forward_job_E1)
qed

text \<open>
  C3 as stated fails on the example. The status of the forward job of E1 is RUNNING, and
  \<^verbatim>\<open>retrieve_outputs\<close> returns without an error after it has issued the copy; the flag
  \<^verbatim>\<open>retrieved\<close> is still false, in memory and in the file.
\<close>

theorem retrieval_while_running_counterexample:
  "fst (get_job_status demo_collaborators ''E1'' ''forward'' ''current'' demo_world) =
     Inr ''RUNNING'' \<and>
   fst (retrieve_outputs demo_collaborators ''E1'' ''forward'' demo_world) = Inr () \<and>
   sapi_calls (snd (retrieve_outputs demo_collaborators ''E1'' ''forward'' demo_world)) =
     [GetJob ''job-abc'' ''daint'',
      CopyOutput \<lparr>job_name = ''job-abc'', job_site = ''daint'', job_array = False\<rparr>
        ''/syn/E1'' True] \<and>
   map_option retrieved
     (forward_job (snd (retrieve_outputs demo_collaborators ''E1'' ''forward'' demo_world)) ''E1'') =
     Some False \<and>
   map_option retrieved
     (written_job (snd (retrieve_outputs demo_collaborators ''E1'' ''forward'' demo_world))
        ''it0001_model'' ''E1'' ''forward'') = Some False"
proof -
  have st: "fst (get_job_status demo_collaborators ''E1'' ''forward'' ''current'' demo_world) =
     Inr ''RUNNING''"
    by (simp add: get_job_status_def get_job_def resolve_job_name_def submitted_name_def
        sapi_get_job_def job_update_status_def demo_world_def demo_collaborators_def job_abc_def)
  have wj: "written_job demo_world ''it0001_model'' ''E1'' ''forward'' = Some job_abc"
    by (simp add: written_job_def demo_world_def demo_it_dict_def iteration_toml_def)
  have wj': "written_job (demo_world\<lparr>sapi_calls := tr\<rparr>) ''it0001_model'' ''E1'' ''forward'' =
      written_job demo_world ''it0001_model'' ''E1'' ''forward''" for tr
    by (simp add: written_job_def)
  show ?thesis
    by (simp add: st demo_retrieval wj wj' demo_forward_job_E1 job_abc_def)
qed

subsection \<open>The status of a job\<close>






subsection \<open>Deleting the stored wavefields\<close>

lemma delete_events_step_ok:
  assumes "stored_job_name it event st = Inr nm"
    and "get_job_answer c (sapi_calls w) nm (site_name w) = None"
    and "delete_answer c (sapi_calls w @ [GetJob nm (site_name w)])
           \<lparr>job_name = nm, job_site = site_name w, job_array = False\<rparr> = None"
  shows "delete_events c it st (event # rest) w =
     delete_events c it st rest
       (w\<lparr>sapi_calls := sapi_calls w @ deletion_calls (site_name w) it st event\<rparr>)"
  using assms by (simp add: sapi_get_job_def job_delete_def deletion_calls_def)

lemma delete_events_step_fails:
  assumes "stored_job_name it event st = Inr nm"
    and "get_job_answer c (sapi_calls w) nm (site_name w) = None"
    and "delete_answer c (sapi_calls w @ [GetJob nm (site_name w)])
           \<lparr>job_name = nm, job_site = site_name w, job_array = False\<rparr> = Some err"
  shows "delete_events c it st (event # rest) w =
     (Inl err, w\<lparr>sapi_calls := sapi_calls w @ deletion_calls (site_name w) it st event\<rparr>)"
  using assms by (simp add: sapi_get_job_def job_delete_def deletion_calls_def)

lemma delete_events_all:
  assumes "\<forall>event \<in> set es. \<exists>nm. stored_job_name it event st = Inr nm \<and>
             (\<forall>tr. get_job_answer c tr nm (site_name w) = None) \<and>
             (\<forall>tr. delete_answer c tr \<lparr>job_name = nm, job_site = site_name w, job_array = False\<rparr> = None)"
  shows "delete_events c it st (es @ rest) w =
     delete_events c it st rest
       (w\<lparr>sapi_calls := sapi_calls w @ concat (map (deletion_calls (site_name w) it st) es)\<rparr>)"
  using assms
proof (induction es arbitrary: w)
  case Nil
  then show ?case by simp
next
  case (Cons event es)
  from Cons.prems obtain nm where
    nm: "stored_job_name it event st = Inr nm"
    and g: "\<And>tr. get_job_answer c tr nm (site_name w) = None"
    and d: "\<And>tr. delete_answer c tr \<lparr>job_name = nm, job_site = site_name w, job_array = False\<rparr> = None"
    by auto
  let ?w = "w\<lparr>sapi_calls := sapi_calls w @ deletion_calls (site_name w) it st event\<rparr>"
  have step: "delete_events c it st ((event # es) @ rest) w = delete_events c it st (es @ rest) ?w"
    using delete_events_step_ok[OF nm g d] by simp
  have "\<forall>event \<in> set es. \<exists>nm. stored_job_name it event st = Inr nm \<and>
             (\<forall>tr. get_job_answer c tr nm (site_name ?w) = None) \<and>
             (\<forall>tr. delete_answer c tr \<lparr>job_name = nm, job_site = site_name ?w, job_array = False\<rparr> = None)"
    using Cons.prems by simp
  from Cons.IH[OF this] step show ?case by simp
qed


text \<open>
  C9, as amended. \<^verbatim>\<open>delete_stored_wavefields\<close> walks the events of the stored iteration in
  their order; for each it fetches the job under the stored name and deletes it. While
  the backend fetches and deletes the jobs of the events \<open>before\<close>, two calls are issued
  for each of them. If no event is left the call returns; if the backend fails to delete
  the job of the next event, the error is raised there and the events after it are never
  reached.
\<close>

theorem delete_stored_wavefields_stops_at_failure:
  assumes "iteration_tomls w (iteration_toml iteration) = Some it"
    and "map fst (it_events it) = before @ rest"
    and "\<forall>event \<in> set before. \<exists>nm. stored_job_name it event st = Inr nm \<and>
           (\<forall>tr. get_job_answer c tr nm (site_name w) = None) \<and>
           (\<forall>tr. delete_answer c tr
                   \<lparr>job_name = nm, job_site = site_name w, job_array = False\<rparr> = None)"
  shows "(rest = [] \<longrightarrow>
            delete_stored_wavefields c iteration st w =
              (Inr (), w\<lparr>sapi_calls := sapi_calls w @
                  concat (map (deletion_calls (site_name w) it st) before)\<rparr>)) \<and>
         (\<forall>event later nm err.
            rest = event # later \<and> stored_job_name it event st = Inr nm \<and>
            (\<forall>tr. get_job_answer c tr nm (site_name w) = None) \<and>
            (\<forall>tr. delete_answer c tr
                    \<lparr>job_name = nm, job_site = site_name w, job_array = False\<rparr> = Some err)
            \<longrightarrow> delete_stored_wavefields c iteration st w =
                  (Inl err, w\<lparr>sapi_calls := sapi_calls w @
                      concat (map (deletion_calls (site_name w) it st) (before @ [event]))\<rparr>))"
proof -
  let ?w = "w\<lparr>sapi_calls := sapi_calls w @
              concat (map (deletion_calls (site_name w) it st) before)\<rparr>"
  have start: "delete_stored_wavefields c iteration st w = delete_events c it st rest ?w"
    using assms(1,2) delete_events_all[OF assms(3), of rest]
    by (simp add: delete_stored_wavefields_def get_old_iteration_info_def)
  have A: "rest = [] \<longrightarrow> delete_stored_wavefields c iteration st w = (Inr (), ?w)"
    using start by simp
  have B: "delete_stored_wavefields c iteration st w =
             (Inl err, w\<lparr>sapi_calls := sapi_calls w @
                concat (map (deletion_calls (site_name w) it st) (before @ [event]))\<rparr>)"
    if r: "rest = event # later" and nm: "stored_job_name it event st = Inr nm"
      and g: "\<forall>tr. get_job_answer c tr nm (site_name w) = None"
      and d: "\<forall>tr. delete_answer c tr
                 \<lparr>job_name = nm, job_site = site_name w, job_array = False\<rparr> = Some err"
    for event later nm err
  proof -
    have g': "get_job_answer c (sapi_calls ?w) nm (site_name ?w) = None" using g by simp
    have d': "delete_answer c (sapi_calls ?w @ [GetJob nm (site_name ?w)])
           \<lparr>job_name = nm, job_site = site_name ?w, job_array = False\<rparr> = Some err"
      using d by simp
    from delete_events_step_fails[OF nm g' d', of later] start r show ?thesis by simp
  qed
  from A B show ?thesis by blast
qed

lemma demo_stored_E1: "stored_job_name demo_it_dict ''E1'' ''forward'' = Inr ''job-abc''"
  by (simp add: stored_job_name_def demo_it_dict_def job_abc_def)

lemma demo_stored_E2: "stored_job_name demo_it_dict ''E2'' ''forward'' = Inr ''job-xyz''"
  by (simp add: stored_job_name_def demo_it_dict_def job_xyz_def)

text \<open>
  The example with a backend that cannot delete the job of E1: the call ends with that
  error after two calls to the backend.
\<close>

theorem delete_stored_wavefields_stops_at_failure_witness:
  "delete_stored_wavefields failing_delete ''it0001_model'' ''forward'' demo_world =
     (Inl (SalvusFlowError ''delete failed''),
      demo_world\<lparr>sapi_calls :=
        [GetJob ''job-abc'' ''daint'',
         Delete \<lparr>job_name = ''job-abc'', job_site = ''daint'', job_array = False\<rparr>]\<rparr>)"
proof -
  have f: "iteration_tomls demo_world (iteration_toml ''it0001_model'') = Some demo_it_dict"
    by (simp add: demo_world_def iteration_toml_def)
  have k: "map fst (it_events demo_it_dict) = [] @ [''E1'', ''E2'']"
    by (simp add: demo_it_dict_def)
  have p: "\<forall>event \<in> set []. \<exists>nm. stored_job_name demo_it_dict event ''forward'' = Inr nm \<and>
           (\<forall>tr. get_job_answer failing_delete tr nm (site_name demo_world) = None) \<and>
           (\<forall>tr. delete_answer failing_delete tr
                   \<lparr>job_name = nm, job_site = site_name demo_world, job_array = False\<rparr> = None)"
    by simp
  have g: "\<forall>tr. get_job_answer failing_delete tr ''job-abc'' (site_name demo_world) = None"
    by (simp add: failing_delete_def demo_collaborators_def)
  have d: "\<forall>tr. delete_answer failing_delete tr
             \<lparr>job_name = ''job-abc'', job_site = site_name demo_world, job_array = False\<rparr> =
             Some (SalvusFlowError ''delete failed'')"
    by (simp add: failing_delete_def)
  have s: "site_name demo_world = ''daint''" "sapi_calls demo_world = []"
    by (simp_all add: demo_world_def)
  from delete_stored_wavefields_stops_at_failure[OF f k p, THEN conjunct2, rule_format,
      of "''E1''" "[''E2'']" "''job-abc''" "SalvusFlowError ''delete failed''"]
    demo_stored_E1 g d
  have "delete_stored_wavefields failing_delete ''it0001_model'' ''forward'' demo_world =
      (Inl (SalvusFlowError ''delete failed''),
       demo_world\<lparr>sapi_calls := sapi_calls demo_world @
          concat (map (deletion_calls (site_name demo_world) demo_it_dict ''forward'')
                    ([] @ [''E1'']))\<rparr>)"
    by simp
  then show ?thesis
    by (simp add: deletion_calls_def demo_stored_E1 s)
qed

text \<open>
  C9 as stated fails on the same input: after the failure for E1 nothing is attempted for
  E2, whose forward job job-xyz is stored and which the backend would delete.
\<close>

theorem delete_aborts_counterexample:
  "fst (delete_stored_wavefields failing_delete ''it0001_model'' ''forward'' demo_world) =
     Inl (SalvusFlowError ''delete failed'') \<and>
   sapi_calls (snd (delete_stored_wavefields failing_delete ''it0001_model'' ''forward'' demo_world)) =
     [GetJob ''job-abc'' ''daint'',
      Delete \<lparr>job_name = ''job-abc'', job_site = ''daint'', job_array = False\<rparr>] \<and>
   map fst (it_events demo_it_dict) = [''E1'', ''E2''] \<and>
   stored_job_name demo_it_dict ''E2'' ''forward'' = Inr ''job-xyz'' \<and>
   delete_answer failing_delete
     [GetJob ''job-abc'' ''daint'',
      Delete \<lparr>job_name = ''job-abc'', job_site = ''daint'', job_array = False\<rparr>,
      GetJob ''job-xyz'' ''daint'']
     \<lparr>job_name = ''job-xyz'', job_site = ''daint'', job_array = False\<rparr> = None"
proof -
  have r: "delete_stored_wavefields failing_delete ''it0001_model'' ''forward'' demo_world =
     (Inl (SalvusFlowError ''delete failed''),
      demo_world\<lparr>sapi_calls :=
        [GetJob ''job-abc'' ''daint'',
         Delete \<lparr>job_name = ''job-abc'', job_site = ''daint'', job_array = False\<rparr>]\<rparr>)"
    by (simp add: delete_stored_wavefields_def get_old_iteration_info_def demo_world_def
        iteration_toml_def demo_stored_E1 sapi_get_job_def job_delete_def failing_delete_def
        demo_collaborators_def)
       (simp add: demo_it_dict_def demo_stored_E1[unfolded demo_it_dict_def] sapi_get_job_def
        job_delete_def)
  show ?thesis
    by (simp add: r demo_stored_E2) (simp add: demo_it_dict_def failing_delete_def)
qed

end
